theory Spec2Isabelle
  imports Main "HOL-Library.Sublist" "HOL-Library.Multiset"
begin

unbundle bit_operations_syntax

section \<open>JavaScript values\<close>

text \<open>
  The chat client of the verification-plan page (\<^verbatim>\<open>frontend/verification-plan.js\<close>, class
  \<^verbatim>\<open>KnowledgeQueryApp\<close>) and the credential manager (\<^verbatim>\<open>CognitoAuthManager\<close>) are embedded
  as functions on explicit state.  A JavaScript string is the list of the bytes of its UTF-8
  encoding: the characters that the code searches for and replaces are ASCII, and no byte of a
  multi-byte sequence is an ASCII byte, so both views agree.  A value that may be \<^verbatim>\<open>null\<close>
  or \<^verbatim>\<open>undefined\<close> is an \<open>option\<close>.
\<close>

definition truthy :: "string option \<Rightarrow> bool" where
  \<comment> \<open>a string-valued expression in a condition: \<^verbatim>\<open>null\<close>, \<^verbatim>\<open>undefined\<close> and \<^verbatim>\<open>''\<close> are falsy\<close>
  "truthy v = (case v of None \<Rightarrow> False | Some s \<Rightarrow> s \<noteq> [])"

definition js_or :: "string option \<Rightarrow> string \<Rightarrow> string" where
  \<comment> \<open>\<^verbatim>\<open>v || d\<close> with a string default\<close>
  "js_or v d = (case v of None \<Rightarrow> d | Some s \<Rightarrow> if s = [] then d else s)"

definition js_or_opt :: "string option \<Rightarrow> string option \<Rightarrow> string option" where
  \<comment> \<open>\<^verbatim>\<open>a || b\<close>\<close>
  "js_or_opt a b = (if truthy a then a else b)"

text \<open>
  \<^verbatim>\<open>String.prototype.trim\<close> strips white space and line terminators from both ends: tab, line
  feed, vertical tab, form feed, carriage return, space, U+00A0, U+1680, U+2000 to U+200A,
  U+2028, U+2029, U+202F, U+205F, U+3000 and U+FEFF, here in their UTF-8 encodings.  At the
  end of the string the encodings are matched backwards.
\<close>

definition white_space :: "string list" where
  "white_space =
     [[CHR 0x09], [CHR 0x0A], [CHR 0x0B], [CHR 0x0C], [CHR 0x0D], [CHR 0x20],
      [CHR 0xC2, CHR 0xA0], [CHR 0xE1, CHR 0x9A, CHR 0x80]]
     @ map (\<lambda>b. [CHR 0xE2, CHR 0x80, b])
         [CHR 0x80, CHR 0x81, CHR 0x82, CHR 0x83, CHR 0x84, CHR 0x85, CHR 0x86, CHR 0x87,
          CHR 0x88, CHR 0x89, CHR 0x8A, CHR 0xA8, CHR 0xA9, CHR 0xAF]
     @ [[CHR 0xE2, CHR 0x81, CHR 0x9F], [CHR 0xE3, CHR 0x80, CHR 0x80],
        [CHR 0xEF, CHR 0xBB, CHR 0xBF]]"

function strip_start :: "string list \<Rightarrow> string \<Rightarrow> string" where
  "strip_start ws s =
     (case find (\<lambda>w. w \<noteq> [] \<and> prefix w s) ws of
        None \<Rightarrow> s
      | Some w \<Rightarrow> strip_start ws (drop (length w) s))"
  by pat_completeness auto
termination
proof (relation "measure (\<lambda>(ws, s). length s)")
  show "wf (measure (\<lambda>(ws, s). length s))" by simp
next
  fix ws :: "string list" and s w :: string
  assume "find (\<lambda>w. w \<noteq> [] \<and> prefix w s) ws = Some w"
  then have "w \<noteq> []" and "prefix w s"
    by (auto simp: find_Some_iff)
  then have "length (drop (length w) s) < length s"
    by (cases s) (auto simp: prefix_def)
  then show "((ws, drop (length w) s), (ws, s)) \<in> measure (\<lambda>(ws, s). length s)"
    by simp
qed

declare strip_start.simps [simp del]

definition trim :: "string \<Rightarrow> string" where
  "trim s = rev (strip_start (map rev white_space) (rev (strip_start white_space s)))"


definition assign :: "string \<Rightarrow> 'v \<Rightarrow> (string \<times> 'v) list \<Rightarrow> (string \<times> 'v) list" where
  \<comment> \<open>\<^verbatim>\<open>obj[k] = v\<close> on a plain object with a string or a number for \<open>v\<close>, the object kept as
      the list of its own keys with one entry for each.  The key \<^verbatim>\<open>__proto__\<close> is the accessor
      that a plain object inherits, and its setter ignores such a value: nothing is stored
      and the object gets no key.  The order in which JavaScript enumerates the keys is not
      modelled, and nothing below depends on it\<close>
  "assign k v obj =
     (if k = ''__proto__'' then obj
      else if k \<in> fst ` set obj
      then map (\<lambda>(k', v'). if k' = k then (k', v) else (k', v')) obj
      else obj @ [(k, v)])"

datatype error = Error (error_message: string)

text \<open>
  A response of the transport: its HTTP status and what \<^verbatim>\<open>response.json()\<close> yields, which is
  an error when the body does not parse.  \<^verbatim>\<open>response.ok\<close> is the range 200 to 299.
\<close>

datatype 'a response = Response (status: nat) (json: "error + 'a")

definition ok :: "'a response \<Rightarrow> bool" where
  "ok r = (200 \<le> status r \<and> status r \<le> 299)"

type_synonym 'a reply = "error + 'a response"

section \<open>Rendering the chat history\<close>

record source =
  fileName :: "string option"
  pdfFileName :: "string option"
  title :: "string option"
  presignedUrl :: "string option"
  sourceUri :: "string option"

record message =
  role :: string
  content :: string
  sources :: "source list option"
  timestamp :: string
  messageId :: "string option"
  rating :: "int option"
  comment :: "string option"

subsection \<open>\<^verbatim>\<open>escapeHtml\<close>\<close>






subsection \<open>\<^verbatim>\<open>createFeedbackHtml\<close> and \<^verbatim>\<open>renderChatHistory\<close>\<close>



















section \<open>The credential manager\<close>

definition msg_session_lost :: string where
  \<comment> \<open>thrown when no valid access token can be obtained ("the authentication session has ended")\<close>
  "msg_session_lost =
     [CHR 0xE8, CHR 0xAA, CHR 0x8D, CHR 0xE8, CHR 0xA8, CHR 0xBC, CHR 0xE3, CHR 0x82, CHR 0xBB, CHR 0xE3, CHR 0x83, CHR 0x83]
     @ [CHR 0xE3, CHR 0x82, CHR 0xB7, CHR 0xE3, CHR 0x83, CHR 0xA7, CHR 0xE3, CHR 0x83, CHR 0xB3, CHR 0xE3, CHR 0x81, CHR 0x8C]
     @ [CHR 0xE5, CHR 0x88, CHR 0x87, CHR 0xE3, CHR 0x82, CHR 0x8C, CHR 0xE3, CHR 0x81, CHR 0xBE, CHR 0xE3, CHR 0x81, CHR 0x97]
     @ [CHR 0xE3, CHR 0x81, CHR 0x9F]"

definition msg_session_expired :: string where
  \<comment> \<open>thrown after a 401 that refresh and resend did not cure ("authentication error: the session has expired")\<close>
  "msg_session_expired =
     [CHR 0xE8, CHR 0xAA, CHR 0x8D, CHR 0xE8, CHR 0xA8, CHR 0xBC, CHR 0xE3, CHR 0x82, CHR 0xA8, CHR 0xE3, CHR 0x83, CHR 0xA9]
     @ [CHR 0xE3, CHR 0x83, CHR 0xBC] @ '': ''
     @ [CHR 0xE3, CHR 0x82, CHR 0xBB, CHR 0xE3, CHR 0x83, CHR 0x83, CHR 0xE3, CHR 0x82, CHR 0xB7, CHR 0xE3, CHR 0x83, CHR 0xA7]
     @ [CHR 0xE3, CHR 0x83, CHR 0xB3, CHR 0xE3, CHR 0x81, CHR 0x8C, CHR 0xE5, CHR 0x88, CHR 0x87, CHR 0xE3, CHR 0x82, CHR 0x8C]
     @ [CHR 0xE3, CHR 0x81, CHR 0xBE, CHR 0xE3, CHR 0x81, CHR 0x97, CHR 0xE3, CHR 0x81, CHR 0x9F]"

definition msg_no_refresh_token :: string where
  \<comment> \<open>"there is no refresh token"\<close>
  "msg_no_refresh_token =
     [CHR 0xE3, CHR 0x83, CHR 0xAA, CHR 0xE3, CHR 0x83, CHR 0x95, CHR 0xE3, CHR 0x83, CHR 0xAC, CHR 0xE3, CHR 0x83, CHR 0x83]
     @ [CHR 0xE3, CHR 0x82, CHR 0xB7, CHR 0xE3, CHR 0x83, CHR 0xA5, CHR 0xE3, CHR 0x83, CHR 0x88, CHR 0xE3, CHR 0x83, CHR 0xBC]
     @ [CHR 0xE3, CHR 0x82, CHR 0xAF, CHR 0xE3, CHR 0x83, CHR 0xB3, CHR 0xE3, CHR 0x81, CHR 0x8C, CHR 0xE3, CHR 0x81, CHR 0x82]
     @ [CHR 0xE3, CHR 0x82, CHR 0x8A, CHR 0xE3, CHR 0x81, CHR 0xBE, CHR 0xE3, CHR 0x81, CHR 0x9B, CHR 0xE3, CHR 0x82, CHR 0x93]"

definition msg_sdk_not_ready :: string where
  \<comment> \<open>"the AWS SDK is not initialised"\<close>
  "msg_sdk_not_ready =
     ''AWS SDK''
     @ [CHR 0xE3, CHR 0x81, CHR 0x8C, CHR 0xE5, CHR 0x88, CHR 0x9D, CHR 0xE6, CHR 0x9C, CHR 0x9F, CHR 0xE5, CHR 0x8C, CHR 0x96]
     @ [CHR 0xE3, CHR 0x81, CHR 0x95, CHR 0xE3, CHR 0x82, CHR 0x8C, CHR 0xE3, CHR 0x81, CHR 0xA6, CHR 0xE3, CHR 0x81, CHR 0x84]
     @ [CHR 0xE3, CHR 0x81, CHR 0xBE, CHR 0xE3, CHR 0x81, CHR 0x9B, CHR 0xE3, CHR 0x82, CHR 0x93]"

definition msg_refresh_failed :: string where
  \<comment> \<open>"refreshing the token failed"\<close>
  "msg_refresh_failed =
     [CHR 0xE3, CHR 0x83, CHR 0x88, CHR 0xE3, CHR 0x83, CHR 0xBC, CHR 0xE3, CHR 0x82, CHR 0xAF, CHR 0xE3, CHR 0x83, CHR 0xB3]
     @ [CHR 0xE3, CHR 0x81, CHR 0xAE, CHR 0xE3, CHR 0x83, CHR 0xAA, CHR 0xE3, CHR 0x83, CHR 0x95, CHR 0xE3, CHR 0x83, CHR 0xAC]
     @ [CHR 0xE3, CHR 0x83, CHR 0x83, CHR 0xE3, CHR 0x82, CHR 0xB7, CHR 0xE3, CHR 0x83, CHR 0xA5, CHR 0xE3, CHR 0x81, CHR 0xAB]
     @ [CHR 0xE5, CHR 0xA4, CHR 0xB1, CHR 0xE6, CHR 0x95, CHR 0x97, CHR 0xE3, CHR 0x81, CHR 0x97, CHR 0xE3, CHR 0x81, CHR 0xBE]
     @ [CHR 0xE3, CHR 0x81, CHR 0x97, CHR 0xE3, CHR 0x81, CHR 0x9F]"

definition msg_token_updated :: string where
  \<comment> \<open>"the token was updated"\<close>
  "msg_token_updated =
     [CHR 0xE3, CHR 0x83, CHR 0x88, CHR 0xE3, CHR 0x83, CHR 0xBC, CHR 0xE3, CHR 0x82, CHR 0xAF, CHR 0xE3, CHR 0x83, CHR 0xB3]
     @ [CHR 0xE3, CHR 0x82, CHR 0x92, CHR 0xE6, CHR 0x9B, CHR 0xB4, CHR 0xE6, CHR 0x96, CHR 0xB0, CHR 0xE3, CHR 0x81, CHR 0x97]
     @ [CHR 0xE3, CHR 0x81, CHR 0xBE, CHR 0xE3, CHR 0x81, CHR 0x97, CHR 0xE3, CHR 0x81, CHR 0x9F]"

definition msg_generic_error :: string where
  \<comment> \<open>"an error occurred"\<close>
  "msg_generic_error =
     [CHR 0xE3, CHR 0x82, CHR 0xA8, CHR 0xE3, CHR 0x83, CHR 0xA9, CHR 0xE3, CHR 0x83, CHR 0xBC, CHR 0xE3, CHR 0x81, CHR 0x8C]
     @ [CHR 0xE7, CHR 0x99, CHR 0xBA, CHR 0xE7, CHR 0x94, CHR 0x9F, CHR 0xE3, CHR 0x81, CHR 0x97, CHR 0xE3, CHR 0x81, CHR 0xBE]
     @ [CHR 0xE3, CHR 0x81, CHR 0x97, CHR 0xE3, CHR 0x81, CHR 0x9F]"

definition errorMessages :: "(string \<times> string) list" where
  \<comment> \<open>the table of \<^verbatim>\<open>parseError\<close>: a Japanese sentence for each Cognito error code\<close>
  "errorMessages =
     [(''UsernameExistsException'',
       [CHR 0xE3, CHR 0x81, CHR 0x93, CHR 0xE3, CHR 0x81, CHR 0xAE, CHR 0xE3, CHR 0x83, CHR 0xA1, CHR 0xE3, CHR 0x83, CHR 0xBC]
       @ [CHR 0xE3, CHR 0x83, CHR 0xAB, CHR 0xE3, CHR 0x82, CHR 0xA2, CHR 0xE3, CHR 0x83, CHR 0x89, CHR 0xE3, CHR 0x83, CHR 0xAC]
       @ [CHR 0xE3, CHR 0x82, CHR 0xB9, CHR 0xE3, CHR 0x81, CHR 0xAF, CHR 0xE6, CHR 0x97, CHR 0xA2, CHR 0xE3, CHR 0x81, CHR 0xAB]
       @ [CHR 0xE7, CHR 0x99, CHR 0xBB, CHR 0xE9, CHR 0x8C, CHR 0xB2, CHR 0xE3, CHR 0x81, CHR 0x95, CHR 0xE3, CHR 0x82, CHR 0x8C]
       @ [CHR 0xE3, CHR 0x81, CHR 0xA6, CHR 0xE3, CHR 0x81, CHR 0x84, CHR 0xE3, CHR 0x81, CHR 0xBE, CHR 0xE3, CHR 0x81, CHR 0x99]),
      (''InvalidPasswordException'',
       [CHR 0xE3, CHR 0x83, CHR 0x91, CHR 0xE3, CHR 0x82, CHR 0xB9, CHR 0xE3, CHR 0x83, CHR 0xAF, CHR 0xE3, CHR 0x83, CHR 0xBC]
       @ [CHR 0xE3, CHR 0x83, CHR 0x89, CHR 0xE3, CHR 0x81, CHR 0x8C, CHR 0xE8, CHR 0xA6, CHR 0x81, CHR 0xE4, CHR 0xBB, CHR 0xB6]
       @ [CHR 0xE3, CHR 0x82, CHR 0x92, CHR 0xE6, CHR 0xBA, CHR 0x80, CHR 0xE3, CHR 0x81, CHR 0x9F, CHR 0xE3, CHR 0x81, CHR 0x97]
       @ [CHR 0xE3, CHR 0x81, CHR 0xA6, CHR 0xE3, CHR 0x81, CHR 0x84, CHR 0xE3, CHR 0x81, CHR 0xBE, CHR 0xE3, CHR 0x81, CHR 0x9B]
       @ [CHR 0xE3, CHR 0x82, CHR 0x93]),
      (''UserNotFoundException'',
       [CHR 0xE3, CHR 0x81, CHR 0x93, CHR 0xE3, CHR 0x81, CHR 0xAE, CHR 0xE3, CHR 0x83, CHR 0xA6, CHR 0xE3, CHR 0x83, CHR 0xBC]
       @ [CHR 0xE3, CHR 0x82, CHR 0xB6, CHR 0xE3, CHR 0x83, CHR 0xBC, CHR 0xE3, CHR 0x81, CHR 0xAF, CHR 0xE7, CHR 0x99, CHR 0xBB]
       @ [CHR 0xE9, CHR 0x8C, CHR 0xB2, CHR 0xE3, CHR 0x81, CHR 0x95, CHR 0xE3, CHR 0x82, CHR 0x8C, CHR 0xE3, CHR 0x81, CHR 0xA6]
       @ [CHR 0xE3, CHR 0x81, CHR 0x84, CHR 0xE3, CHR 0x81, CHR 0xBE, CHR 0xE3, CHR 0x81, CHR 0x9B, CHR 0xE3, CHR 0x82, CHR 0x93]),
      (''NotAuthorizedException'',
       [CHR 0xE3, CHR 0x83, CHR 0xA1, CHR 0xE3, CHR 0x83, CHR 0xBC, CHR 0xE3, CHR 0x83, CHR 0xAB, CHR 0xE3, CHR 0x82, CHR 0xA2]
       @ [CHR 0xE3, CHR 0x83, CHR 0x89, CHR 0xE3, CHR 0x83, CHR 0xAC, CHR 0xE3, CHR 0x82, CHR 0xB9, CHR 0xE3, CHR 0x81, CHR 0xBE]
       @ [CHR 0xE3, CHR 0x81, CHR 0x9F, CHR 0xE3, CHR 0x81, CHR 0xAF, CHR 0xE3, CHR 0x83, CHR 0x91, CHR 0xE3, CHR 0x82, CHR 0xB9]
       @ [CHR 0xE3, CHR 0x83, CHR 0xAF, CHR 0xE3, CHR 0x83, CHR 0xBC, CHR 0xE3, CHR 0x83, CHR 0x89, CHR 0xE3, CHR 0x81, CHR 0x8C]
       @ [CHR 0xE6, CHR 0xAD, CHR 0xA3, CHR 0xE3, CHR 0x81, CHR 0x97, CHR 0xE3, CHR 0x81, CHR 0x8F, CHR 0xE3, CHR 0x81, CHR 0x82]
       @ [CHR 0xE3, CHR 0x82, CHR 0x8A, CHR 0xE3, CHR 0x81, CHR 0xBE, CHR 0xE3, CHR 0x81, CHR 0x9B, CHR 0xE3, CHR 0x82, CHR 0x93]),
      (''UserNotConfirmedException'',
       [CHR 0xE3, CHR 0x83, CHR 0xA1, CHR 0xE3, CHR 0x83, CHR 0xBC, CHR 0xE3, CHR 0x83, CHR 0xAB, CHR 0xE7, CHR 0xA2, CHR 0xBA]
       @ [CHR 0xE8, CHR 0xAA, CHR 0x8D, CHR 0xE3, CHR 0x81, CHR 0x8C, CHR 0xE3, CHR 0x81, CHR 0xBE, CHR 0xE3, CHR 0x81, CHR 0xA0]
       @ [CHR 0xE5, CHR 0xAE, CHR 0x8C, CHR 0xE4, CHR 0xBA, CHR 0x86, CHR 0xE3, CHR 0x81, CHR 0x97, CHR 0xE3, CHR 0x81, CHR 0xA6]
       @ [CHR 0xE3, CHR 0x81, CHR 0x84, CHR 0xE3, CHR 0x81, CHR 0xBE, CHR 0xE3, CHR 0x81, CHR 0x9B, CHR 0xE3, CHR 0x82, CHR 0x93]),
      (''CodeMismatchException'',
       [CHR 0xE7, CHR 0xA2, CHR 0xBA, CHR 0xE8, CHR 0xAA, CHR 0x8D, CHR 0xE3, CHR 0x82, CHR 0xB3, CHR 0xE3, CHR 0x83, CHR 0xBC]
       @ [CHR 0xE3, CHR 0x83, CHR 0x89, CHR 0xE3, CHR 0x81, CHR 0x8C, CHR 0xE6, CHR 0xAD, CHR 0xA3, CHR 0xE3, CHR 0x81, CHR 0x97]
       @ [CHR 0xE3, CHR 0x81, CHR 0x8F, CHR 0xE3, CHR 0x81, CHR 0x82, CHR 0xE3, CHR 0x82, CHR 0x8A, CHR 0xE3, CHR 0x81, CHR 0xBE]
       @ [CHR 0xE3, CHR 0x81, CHR 0x9B, CHR 0xE3, CHR 0x82, CHR 0x93]),
      (''ExpiredCodeException'',
       [CHR 0xE7, CHR 0xA2, CHR 0xBA, CHR 0xE8, CHR 0xAA, CHR 0x8D, CHR 0xE3, CHR 0x82, CHR 0xB3, CHR 0xE3, CHR 0x83, CHR 0xBC]
       @ [CHR 0xE3, CHR 0x83, CHR 0x89, CHR 0xE3, CHR 0x81, CHR 0xAE, CHR 0xE6, CHR 0x9C, CHR 0x89, CHR 0xE5, CHR 0x8A, CHR 0xB9]
       @ [CHR 0xE6, CHR 0x9C, CHR 0x9F, CHR 0xE9, CHR 0x99, CHR 0x90, CHR 0xE3, CHR 0x81, CHR 0x8C, CHR 0xE5, CHR 0x88, CHR 0x87]
       @ [CHR 0xE3, CHR 0x82, CHR 0x8C, CHR 0xE3, CHR 0x81, CHR 0xA6, CHR 0xE3, CHR 0x81, CHR 0x84, CHR 0xE3, CHR 0x81, CHR 0xBE]
       @ [CHR 0xE3, CHR 0x81, CHR 0x99]),
      (''TooManyRequestsException'',
       [CHR 0xE3, CHR 0x83, CHR 0xAA, CHR 0xE3, CHR 0x82, CHR 0xAF, CHR 0xE3, CHR 0x82, CHR 0xA8, CHR 0xE3, CHR 0x82, CHR 0xB9]
       @ [CHR 0xE3, CHR 0x83, CHR 0x88, CHR 0xE3, CHR 0x81, CHR 0x8C, CHR 0xE5, CHR 0xA4, CHR 0x9A, CHR 0xE3, CHR 0x81, CHR 0x99]
       @ [CHR 0xE3, CHR 0x81, CHR 0x8E, CHR 0xE3, CHR 0x81, CHR 0xBE, CHR 0xE3, CHR 0x81, CHR 0x99, CHR 0xE3, CHR 0x80, CHR 0x82]
       @ [CHR 0xE3, CHR 0x81, CHR 0x97, CHR 0xE3, CHR 0x81, CHR 0xB0, CHR 0xE3, CHR 0x82, CHR 0x89, CHR 0xE3, CHR 0x81, CHR 0x8F]
       @ [CHR 0xE5, CHR 0xBE, CHR 0x85, CHR 0xE3, CHR 0x81, CHR 0xA3, CHR 0xE3, CHR 0x81, CHR 0xA6, CHR 0xE3, CHR 0x81, CHR 0x8B]
       @ [CHR 0xE3, CHR 0x82, CHR 0x89, CHR 0xE5, CHR 0x86, CHR 0x8D, CHR 0xE5, CHR 0xBA, CHR 0xA6, CHR 0xE3, CHR 0x81, CHR 0x8A]
       @ [CHR 0xE8, CHR 0xA9, CHR 0xA6, CHR 0xE3, CHR 0x81, CHR 0x97, CHR 0xE3, CHR 0x81, CHR 0x8F, CHR 0xE3, CHR 0x81, CHR 0xA0]
       @ [CHR 0xE3, CHR 0x81, CHR 0x95, CHR 0xE3, CHR 0x81, CHR 0x84])]"

record js_error =
  err_code :: "string option"
  err_name :: "string option"
  err_message :: "string option"

definition parseError :: "js_error \<Rightarrow> string" where
  "parseError e =
     (let errorCode = js_or_opt (err_code e) (err_name e);
          known = (case errorCode of None \<Rightarrow> None | Some c \<Rightarrow> map_of errorMessages c)
      in js_or (js_or_opt known (err_message e)) msg_generic_error)"

text \<open>
  What the identity provider answers to \<^verbatim>\<open>initiateAuth\<close>: a result with access token, id
  token and lifetime in seconds, a response without \<^verbatim>\<open>AuthenticationResult\<close>, or a rejection.
\<close>

datatype cognito_reply =
    AuthenticationResult string string "int option"
  | No_AuthenticationResult
  | Rejected js_error

record refresh_result =
  success :: bool
  message_text :: string

text \<open>
  The calls that \<^verbatim>\<open>apiRequest\<close> and \<^verbatim>\<open>getAccessToken\<close> make, in the order they are made.
  A transport call records its URL and headers; a refresh records who asked for it and
  whether it succeeded.
\<close>

datatype call =
    Fetch string "(string \<times> string) list"
  | Refresh_by_apiRequest bool
  | Refresh_by_getAccessToken bool
  | InitiateAuth

text \<open>
  The state that the credential manager and \<^verbatim>\<open>apiRequest\<close> read and write: the five
  \<^verbatim>\<open>localStorage\<close> keys, the fields of the manager, whether the page has a manager at all
  (\<^verbatim>\<open>this.authManager\<close>), and the surroundings: the successive readings of \<^verbatim>\<open>Date.now()\<close>,
  the successive answers of the identity provider and of the transport, each with the number
  of answers already consumed.
\<close>

record 'a world =
  cognito_access_token :: "string option"
  cognito_id_token :: "string option"
  cognito_refresh_token :: "string option"
  cognito_token_expires_at :: "int option"
  cognito_user_email :: "string option"
  sessionToken :: "string option"
  cognitoIdentityServiceProvider :: bool
  authManager :: bool
  date_now :: "nat \<Rightarrow> int"
  date_reads :: nat
  initiateAuth :: "nat \<Rightarrow> cognito_reply"
  initiateAuth_calls :: nat
  fetch :: "nat \<Rightarrow> 'a reply"
  fetch_calls :: nat
  location_href :: "string option"
  calls :: "call list"

definition signOut :: "'a world \<Rightarrow> 'a world" where
  "signOut w =
     w\<lparr>cognito_access_token := None, cognito_id_token := None, cognito_refresh_token := None,
       cognito_token_expires_at := None, cognito_user_email := None, sessionToken := None\<rparr>"

definition isAuthenticated :: "'a world \<Rightarrow> bool \<times> 'a world" where
  "isAuthenticated w =
     (if \<not> truthy (cognito_access_token w) then (False, w)
      else case cognito_token_expires_at w of
             None \<Rightarrow> (True, w)
           | Some expiryTime \<Rightarrow>
               (let now = date_now w (date_reads w);
                    w = w\<lparr>date_reads := Suc (date_reads w)\<rparr>
                in if now \<ge> expiryTime then (False, w) else (True, w)))"

definition refreshAccessToken :: "'a world \<Rightarrow> refresh_result \<times> 'a world" where
  "refreshAccessToken w =
     (if \<not> truthy (cognito_refresh_token w)
      then (\<lparr>success = False, message_text = msg_no_refresh_token\<rparr>, w)
      else if \<not> cognitoIdentityServiceProvider w
      then (\<lparr>success = False, message_text = msg_sdk_not_ready\<rparr>, w)
      else
        (let response = initiateAuth w (initiateAuth_calls w);
             w = w\<lparr>initiateAuth_calls := Suc (initiateAuth_calls w),
                    calls := calls w @ [InitiateAuth]\<rparr>
         in case response of
              No_AuthenticationResult \<Rightarrow>
                (\<lparr>success = False, message_text = msg_refresh_failed\<rparr>, w)
            | AuthenticationResult accessToken newIdToken lifetime \<Rightarrow>
                (let expiresIn = (case lifetime of None \<Rightarrow> 3600
                                  | Some n \<Rightarrow> if n = 0 then 3600 else n);
                     expiresAt = date_now w (date_reads w) + expiresIn * 1000;
                     w = w\<lparr>sessionToken := Some accessToken,
                            cognito_access_token := Some accessToken,
                            cognito_id_token := Some newIdToken,
                            cognito_token_expires_at := Some expiresAt,
                            date_reads := Suc (date_reads w)\<rparr>
                 in (\<lparr>success = True, message_text = msg_token_updated\<rparr>, w))
            | Rejected e \<Rightarrow>
                (let w = (if err_code e = Some ''NotAuthorizedException'' then signOut w else w)
                 in (\<lparr>success = False, message_text = parseError e\<rparr>, w))))"

definition getAccessToken :: "'a world \<Rightarrow> string option \<times> 'a world" where
  "getAccessToken w =
     (let (authenticated, w) = isAuthenticated w in
      if \<not> authenticated
      then (let (refreshResult, w) = refreshAccessToken w;
                w = w\<lparr>calls := calls w @ [Refresh_by_getAccessToken (success refreshResult)]\<rparr>
            in if \<not> success refreshResult then (None, w) else (cognito_access_token w, w))
      else (cognito_access_token w, w))"

section \<open>The authenticated request client\<close>

definition bearer :: "string option \<Rightarrow> string" where
  \<comment> \<open>the template \<^verbatim>\<open>`Bearer ${token}`\<close>, which prints \<^verbatim>\<open>null\<close> for a missing token\<close>
  "bearer token = ''Bearer '' @ (case token of None \<Rightarrow> ''null'' | Some t \<Rightarrow> t)"

definition do_fetch :: "string \<Rightarrow> (string \<times> string) list \<Rightarrow> 'a world \<Rightarrow> 'a reply \<times> 'a world" where
  \<comment> \<open>\<^verbatim>\<open>await fetch(url, {...options, headers})\<close>: the next answer of the transport\<close>
  "do_fetch url headers w =
     (fetch w (fetch_calls w),
      w\<lparr>fetch_calls := Suc (fetch_calls w), calls := calls w @ [Fetch url headers]\<rparr>)"

definition redirect_to_login :: "'a world \<Rightarrow> 'a world" where
  \<comment> \<open>\<^verbatim>\<open>window.location.href = 'index.html'\<close>\<close>
  "redirect_to_login w = w\<lparr>location_href := Some ''index.html''\<rparr>"

text \<open>
  The \<^verbatim>\<open>try\<close> block of \<^verbatim>\<open>apiRequest\<close>.  Its \<^verbatim>\<open>catch\<close> logs and rethrows, so an error
  raised inside is the error of the whole call.
\<close>

definition send_with_retry ::
  "string \<Rightarrow> (string \<times> string) list \<Rightarrow> 'a world \<Rightarrow> 'a reply \<times> 'a world" where
  "send_with_retry url headers w =
     (let (first, w) = do_fetch url headers w in
      case first of
        Inl e \<Rightarrow> (Inl e, w)
      | Inr response \<Rightarrow>
          if status response = 401
          then
            (if authManager w
             then
               (let (refreshResult, w) = refreshAccessToken w;
                    w = w\<lparr>calls := calls w @ [Refresh_by_apiRequest (success refreshResult)]\<rparr>
                in if success refreshResult
                   then
                     (let (newAccessToken, w) = getAccessToken w;
                          headers = assign ''Authorization'' (bearer newAccessToken) headers;
                          (retry, w) = do_fetch url headers w
                      in case retry of
                           Inl e \<Rightarrow> (Inl e, w)
                         | Inr retryResponse \<Rightarrow>
                             if ok retryResponse then (Inr retryResponse, w)
                             else (Inl (Error msg_session_expired), redirect_to_login w))
                   else (Inl (Error msg_session_expired), redirect_to_login w))
             else (Inl (Error msg_session_expired), redirect_to_login w))
          else (Inr response, w))"

definition apiRequest ::
  "string \<Rightarrow> (string \<times> string) list option \<Rightarrow> string option \<Rightarrow> 'a world
     \<Rightarrow> 'a reply \<times> 'a world" where
  \<comment> \<open>\<open>opt_headers\<close> is \<^verbatim>\<open>options.headers\<close> and \<open>body\<close> is \<^verbatim>\<open>options.body\<close>, a string when given\<close>
  "apiRequest url opt_headers body w =
     (let headers = (case opt_headers of None \<Rightarrow> [] | Some h \<Rightarrow> h);
          (accessToken, w) =
            (if authManager w then getAccessToken w
             else (js_or_opt (cognito_id_token w) (cognito_access_token w), w))
      in if authManager w \<and> \<not> truthy accessToken
         then (Inl (Error msg_session_lost), redirect_to_login w)
         else
           (let headers = (if truthy accessToken
                           then assign ''Authorization'' (bearer accessToken) headers
                           else headers);
                headers = (if \<not> truthy (map_of headers ''Content-Type'') \<and> truthy body
                           then assign ''Content-Type'' ''application/json'' headers
                           else headers)
            in send_with_retry url headers w))"

section \<open>The query client\<close>

subsection \<open>Fixed user-facing texts\<close>

definition msg_error_prefix :: string where
  \<comment> \<open>what \<^verbatim>\<open>submitQuery\<close> puts before the message of a caught error ("error: ")\<close>
  "msg_error_prefix =
     [CHR 0xE3, CHR 0x82, CHR 0xA8, CHR 0xE3, CHR 0x83, CHR 0xA9, CHR 0xE3, CHR 0x83, CHR 0xBC]
     @ '': ''"

definition msg_enter_question :: string where
  \<comment> \<open>"please enter a question"\<close>
  "msg_enter_question =
     [CHR 0xE8, CHR 0xB3, CHR 0xAA, CHR 0xE5, CHR 0x95, CHR 0x8F, CHR 0xE3, CHR 0x82, CHR 0x92, CHR 0xE5, CHR 0x85, CHR 0xA5]
     @ [CHR 0xE5, CHR 0x8A, CHR 0x9B, CHR 0xE3, CHR 0x81, CHR 0x97, CHR 0xE3, CHR 0x81, CHR 0xA6, CHR 0xE3, CHR 0x81, CHR 0x8F]
     @ [CHR 0xE3, CHR 0x81, CHR 0xA0, CHR 0xE3, CHR 0x81, CHR 0x95, CHR 0xE3, CHR 0x81, CHR 0x84]"

definition msg_select_folder :: string where
  \<comment> \<open>"please select the folders to search (with the button in the header)"\<close>
  "msg_select_folder =
     [CHR 0xE6, CHR 0xA4, CHR 0x9C, CHR 0xE7, CHR 0xB4, CHR 0xA2, CHR 0xE5, CHR 0xAF, CHR 0xBE, CHR 0xE8, CHR 0xB1, CHR 0xA1]
     @ [CHR 0xE3, CHR 0x81, CHR 0xAE, CHR 0xE3, CHR 0x83, CHR 0x95, CHR 0xE3, CHR 0x82, CHR 0xA9, CHR 0xE3, CHR 0x83, CHR 0xAB]
     @ [CHR 0xE3, CHR 0x83, CHR 0x80, CHR 0xE3, CHR 0x82, CHR 0x92, CHR 0xE9, CHR 0x81, CHR 0xB8, CHR 0xE6, CHR 0x8A, CHR 0x9E]
     @ [CHR 0xE3, CHR 0x81, CHR 0x97, CHR 0xE3, CHR 0x81, CHR 0xA6, CHR 0xE3, CHR 0x81, CHR 0x8F, CHR 0xE3, CHR 0x81, CHR 0xA0]
     @ [CHR 0xE3, CHR 0x81, CHR 0x95, CHR 0xE3, CHR 0x81, CHR 0x84, CHR 0xEF, CHR 0xBC, CHR 0x88, CHR 0xE3, CHR 0x83, CHR 0x98]
     @ [CHR 0xE3, CHR 0x83, CHR 0x83, CHR 0xE3, CHR 0x83, CHR 0x80, CHR 0xE3, CHR 0x83, CHR 0xBC, CHR 0xE3, CHR 0x81, CHR 0xAE]
     @ [CHR 0xE3, CHR 0x80, CHR 0x8C, CHR 0xE6, CHR 0xA4, CHR 0x9C, CHR 0xE7, CHR 0xB4, CHR 0xA2, CHR 0xE5, CHR 0xAF, CHR 0xBE]
     @ [CHR 0xE8, CHR 0xB1, CHR 0xA1, CHR 0xE9, CHR 0x81, CHR 0xB8, CHR 0xE6, CHR 0x8A, CHR 0x9E, CHR 0xE3, CHR 0x80, CHR 0x8D]
     @ [CHR 0xE3, CHR 0x83, CHR 0x9C, CHR 0xE3, CHR 0x82, CHR 0xBF, CHR 0xE3, CHR 0x83, CHR 0xB3, CHR 0xE3, CHR 0x81, CHR 0x8B]
     @ [CHR 0xE3, CHR 0x82, CHR 0x89, CHR 0xEF, CHR 0xBC, CHR 0x89]"

definition msg_generating :: string where
  \<comment> \<open>"generating the answer..."\<close>
  "msg_generating =
     [CHR 0xE5, CHR 0x9B, CHR 0x9E, CHR 0xE7, CHR 0xAD, CHR 0x94, CHR 0xE3, CHR 0x82, CHR 0x92, CHR 0xE7, CHR 0x94, CHR 0x9F]
     @ [CHR 0xE6, CHR 0x88, CHR 0x90, CHR 0xE4, CHR 0xB8, CHR 0xAD] @ ''...''"

definition msg_start_failed :: string where
  \<comment> \<open>"starting the query failed"\<close>
  "msg_start_failed =
     [CHR 0xE3, CHR 0x82, CHR 0xAF, CHR 0xE3, CHR 0x82, CHR 0xA8, CHR 0xE3, CHR 0x83, CHR 0xAA, CHR 0xE3, CHR 0x81, CHR 0xAE]
     @ [CHR 0xE9, CHR 0x96, CHR 0x8B, CHR 0xE5, CHR 0xA7, CHR 0x8B, CHR 0xE3, CHR 0x81, CHR 0xAB, CHR 0xE5, CHR 0xA4, CHR 0xB1]
     @ [CHR 0xE6, CHR 0x95, CHR 0x97, CHR 0xE3, CHR 0x81, CHR 0x97, CHR 0xE3, CHR 0x81, CHR 0xBE, CHR 0xE3, CHR 0x81, CHR 0x97]
     @ [CHR 0xE3, CHR 0x81, CHR 0x9F]"

definition msg_status_failed :: string where
  \<comment> \<open>"fetching the status failed"\<close>
  "msg_status_failed =
     [CHR 0xE3, CHR 0x82, CHR 0xB9, CHR 0xE3, CHR 0x83, CHR 0x86, CHR 0xE3, CHR 0x83, CHR 0xBC, CHR 0xE3, CHR 0x82, CHR 0xBF]
     @ [CHR 0xE3, CHR 0x82, CHR 0xB9, CHR 0xE5, CHR 0x8F, CHR 0x96, CHR 0xE5, CHR 0xBE, CHR 0x97, CHR 0xE3, CHR 0x81, CHR 0xAB]
     @ [CHR 0xE5, CHR 0xA4, CHR 0xB1, CHR 0xE6, CHR 0x95, CHR 0x97, CHR 0xE3, CHR 0x81, CHR 0x97, CHR 0xE3, CHR 0x81, CHR 0xBE]
     @ [CHR 0xE3, CHR 0x81, CHR 0x97, CHR 0xE3, CHR 0x81, CHR 0x9F]"

definition msg_query_failed :: string where
  \<comment> \<open>"processing the query failed"\<close>
  "msg_query_failed =
     [CHR 0xE3, CHR 0x82, CHR 0xAF, CHR 0xE3, CHR 0x82, CHR 0xA8, CHR 0xE3, CHR 0x83, CHR 0xAA, CHR 0xE5, CHR 0x87, CHR 0xA6]
     @ [CHR 0xE7, CHR 0x90, CHR 0x86, CHR 0xE3, CHR 0x81, CHR 0xAB, CHR 0xE5, CHR 0xA4, CHR 0xB1, CHR 0xE6, CHR 0x95, CHR 0x97]
     @ [CHR 0xE3, CHR 0x81, CHR 0x97, CHR 0xE3, CHR 0x81, CHR 0xBE, CHR 0xE3, CHR 0x81, CHR 0x97, CHR 0xE3, CHR 0x81, CHR 0x9F]"

definition msg_timeout :: string where
  \<comment> \<open>"timed out; please contact the administrator"\<close>
  "msg_timeout =
     [CHR 0xE3, CHR 0x82, CHR 0xBF, CHR 0xE3, CHR 0x82, CHR 0xA4, CHR 0xE3, CHR 0x83, CHR 0xA0, CHR 0xE3, CHR 0x82, CHR 0xA2]
     @ [CHR 0xE3, CHR 0x82, CHR 0xA6, CHR 0xE3, CHR 0x83, CHR 0x88, CHR 0xE3, CHR 0x81, CHR 0x97, CHR 0xE3, CHR 0x81, CHR 0xBE]
     @ [CHR 0xE3, CHR 0x81, CHR 0x97, CHR 0xE3, CHR 0x81, CHR 0x9F, CHR 0xE3, CHR 0x80, CHR 0x82, CHR 0xE7, CHR 0xAE, CHR 0xA1]
     @ [CHR 0xE7, CHR 0x90, CHR 0x86, CHR 0xE8, CHR 0x80, CHR 0x85, CHR 0xE3, CHR 0x81, CHR 0xAB, CHR 0xE5, CHR 0x95, CHR 0x8F]
     @ [CHR 0xE3, CHR 0x81, CHR 0x84, CHR 0xE5, CHR 0x90, CHR 0x88, CHR 0xE3, CHR 0x82, CHR 0x8F, CHR 0xE3, CHR 0x81, CHR 0x9B]
     @ [CHR 0xE3, CHR 0x81, CHR 0xA6, CHR 0xE3, CHR 0x81, CHR 0x8F, CHR 0xE3, CHR 0x81, CHR 0xA0, CHR 0xE3, CHR 0x81, CHR 0x95]
     @ [CHR 0xE3, CHR 0x81, CHR 0x84]"

definition msg_feedback_failed :: string where
  \<comment> \<open>"sending the feedback failed"\<close>
  "msg_feedback_failed =
     [CHR 0xE3, CHR 0x83, CHR 0x95, CHR 0xE3, CHR 0x82, CHR 0xA3, CHR 0xE3, CHR 0x83, CHR 0xBC, CHR 0xE3, CHR 0x83, CHR 0x89]
     @ [CHR 0xE3, CHR 0x83, CHR 0x90, CHR 0xE3, CHR 0x83, CHR 0x83, CHR 0xE3, CHR 0x82, CHR 0xAF, CHR 0xE9, CHR 0x80, CHR 0x81]
     @ [CHR 0xE4, CHR 0xBF, CHR 0xA1, CHR 0xE3, CHR 0x81, CHR 0xAB, CHR 0xE5, CHR 0xA4, CHR 0xB1, CHR 0xE6, CHR 0x95, CHR 0x97]
     @ [CHR 0xE3, CHR 0x81, CHR 0x97, CHR 0xE3, CHR 0x81, CHR 0xBE, CHR 0xE3, CHR 0x81, CHR 0x97, CHR 0xE3, CHR 0x81, CHR 0x9F]"

definition msg_chat_reset :: string where
  \<comment> \<open>"the chat was reset"\<close>
  "msg_chat_reset =
     [CHR 0xE3, CHR 0x83, CHR 0x81, CHR 0xE3, CHR 0x83, CHR 0xA3, CHR 0xE3, CHR 0x83, CHR 0x83, CHR 0xE3, CHR 0x83, CHR 0x88]
     @ [CHR 0xE3, CHR 0x82, CHR 0x92, CHR 0xE3, CHR 0x83, CHR 0xAA, CHR 0xE3, CHR 0x82, CHR 0xBB, CHR 0xE3, CHR 0x83, CHR 0x83]
     @ [CHR 0xE3, CHR 0x83, CHR 0x88, CHR 0xE3, CHR 0x81, CHR 0x97, CHR 0xE3, CHR 0x81, CHR 0xBE, CHR 0xE3, CHR 0x81, CHR 0x97]
     @ [CHR 0xE3, CHR 0x81, CHR 0x9F]"

subsection \<open>Requests, answers and the state of the page\<close>

record request_body =
  query :: string
  chat_session_id :: string
  use_agent :: bool
  agent_type :: string
  jobId :: "string option"
  selected_job_id :: "string option"
  folder_paths :: "string list option"
  folder_default_job_ids :: "(string \<times> string) list option"

text \<open>
  The requests of the client, by endpoint: \<^verbatim>\<open>POST /knowledge-query/start\<close> with its body,
  \<^verbatim>\<open>GET /knowledge-query/status/${queryId}\<close>, \<^verbatim>\<open>GET /default-job?folder_path=...\<close>,
  \<^verbatim>\<open>POST /history\<close> with action \<^verbatim>\<open>update-feedback\<close> (message id, session id, rating and comment
  when given), and \<^verbatim>\<open>POST /knowledge-query\<close> with action \<^verbatim>\<open>get-history\<close> for a job id.
  An effect is a request sent through \<^verbatim>\<open>this.apiRequest\<close>, a request sent with \<^verbatim>\<open>fetch\<close>
  directly, or a pause in milliseconds.
\<close>

datatype request =
    Start_query request_body
  | Query_status "string option"
  | Default_job string
  | Update_feedback string string "int option" "string option"
  | History_of_job string

datatype effect =
    Via_apiRequest request
  | Direct_fetch request "(string \<times> string) list"
  | Sleep nat

record start_data =
  query_id :: "string option"
  start_error :: "string option"

record status_data =
  job_status :: "string option"
  answer :: "string option"
  found_sources :: "source list option"
  message_id :: "string option"
  job_error :: "string option"

record default_job_data =
  job_id :: "string option"

record history_data =
  messages :: "message list option"

text \<open>
  The keys of \<^verbatim>\<open>sessionStorage\<close> (the first three) and \<^verbatim>\<open>localStorage\<close> that the page uses.
  \<^verbatim>\<open>selectedFolderPaths\<close> holds the JSON text of an array of strings, kept here as the array.
\<close>

record storage =
  lastPageLoadTime :: "int option"
  verificationPlanSessionId :: "string option"
  stored_chatSessionId :: "string option"
  stored_selectedFolderPaths :: "string list option"
  stored_selectedJobId :: "string option"

text \<open>
  The fields of \<^verbatim>\<open>KnowledgeQueryApp\<close>, the properties of the page elements that the code
  sets (\<^verbatim>\<open>queryInput.value\<close>, the two \<^verbatim>\<open>disabled\<close> flags, the status line with its text and
  class, the text of the loading overlay), the browser storage, and the effects so far.
\<close>

record app =
  selectedJobId :: "string option"
  selectedFolderPaths :: "string list"
  folderDefaultJobIds :: "(string \<times> string) list"
  chatSessionId :: string
  useAgent :: bool
  agentType :: string
  chatMessages :: "message list"
  currentPdfUris :: "string option list"
  currentPdfIndex :: nat
  isHardRefresh :: bool
  queryInput_value :: string
  queryInput_disabled :: bool
  submitQueryBtn_disabled :: bool
  queryStatus :: "(string \<times> string) option"
  loadingUI :: "string option"
  storage :: storage
  effects :: "effect list"

text \<open>
  What the surroundings supply: the answer that \<^verbatim>\<open>this.apiRequest\<close> gives to the start
  request, to the \<open>k\<close>-th status request, to the default-job request of a folder and to the
  history request; the local time and the fallback message id for the message appended when
  \<open>n\<close> messages exist; the successive values of \<^verbatim>\<open>Math.random() * 16 | 0\<close>; the reading of
  \<^verbatim>\<open>Date.now()\<close> and \<^verbatim>\<open>performance.navigation.type\<close> (when available) at page load; the
  user's answer to the confirmation dialog and the text of the job id field.
\<close>

record env =
  start_reply :: "start_data reply"
  status_reply :: "nat \<Rightarrow> status_data reply"
  default_job_reply :: "string \<Rightarrow> default_job_data reply"
  history_reply :: "history_data reply"
  locale_time :: "nat \<Rightarrow> string"
  fallback_id :: "nat \<Rightarrow> string"
  random16 :: "nat \<Rightarrow> nat"
  time_now :: int
  navigation_type :: "nat option"
  confirm_reset :: bool
  jobIdInputModal_value :: string

subsection \<open>Status line, loading overlay, transcript\<close>

definition showMessage :: "string \<Rightarrow> string \<Rightarrow> app \<Rightarrow> app" where
  \<comment> \<open>an empty message hides the status line\<close>
  "showMessage message type app =
     (if message = [] then app\<lparr>queryStatus := None\<rparr>
      else app\<lparr>queryStatus := Some (message, type)\<rparr>)"

definition showLoadingUI :: "string \<Rightarrow> app \<Rightarrow> app" where
  "showLoadingUI message app = app\<lparr>loadingUI := Some message\<rparr>"

definition hideLoadingUI :: "app \<Rightarrow> app" where
  "hideLoadingUI app = app\<lparr>loadingUI := None\<rparr>"

definition addChatMessage ::
  "env \<Rightarrow> string \<Rightarrow> string \<Rightarrow> source list option \<Rightarrow> string option \<Rightarrow> app \<Rightarrow> app" where
  \<comment> \<open>the message is pushed and the history rendered again from \<^verbatim>\<open>chatMessages\<close>\<close>
  "addChatMessage env role' content' sources' messageId' app =
     (let n = length (chatMessages app);
          messageId' = (if \<not> truthy messageId' \<and> role' = ''assistant''
                        then Some (fallback_id env n) else messageId');
          message = \<lparr>role = role', content = content', sources = sources',
                     timestamp = locale_time env n, messageId = messageId',
                     rating = None, comment = None\<rparr>
      in app\<lparr>chatMessages := chatMessages app @ [message]\<rparr>)"

definition updatePdfList :: "source list \<Rightarrow> app \<Rightarrow> app" where
  \<comment> \<open>one entry for each distinct URL, in the order of first occurrence; showing the first
      document ends with \<^verbatim>\<open>showMessage('', '')\<close>\<close>
  "updatePdfList sources' app =
     (let uris = foldl (\<lambda>seen source.
                          let fileUrl = js_or_opt (presignedUrl source) (sourceUri source)
                          in if fileUrl \<in> set seen then seen else seen @ [fileUrl])
                       [] sources';
          app = app\<lparr>currentPdfUris := uris\<rparr>
      in if uris \<noteq> [] then showMessage [] [] (app\<lparr>currentPdfIndex := 0\<rparr>) else app)"

subsection \<open>Session identifiers\<close>

definition hex_digit :: "nat \<Rightarrow> char" where
  \<comment> \<open>\<^verbatim>\<open>v.toString(16)\<close> for \<open>v < 16\<close>\<close>
  "hex_digit v = ''0123456789abcdef'' ! v"

fun fill_template :: "(nat \<Rightarrow> nat) \<Rightarrow> nat \<Rightarrow> string \<Rightarrow> string" where
  \<comment> \<open>\<^verbatim>\<open>template.replace(/[xy]/g, ...)\<close>, the \<open>k\<close>-th match drawing the \<open>k\<close>-th random value\<close>
  "fill_template rnd k [] = []"
| "fill_template rnd k (c # cs) =
     (if c = CHR ''x'' \<or> c = CHR ''y''
      then (let r = rnd k mod 16;
                v = (if c = CHR ''x'' then r else (r AND 0x3) OR 0x8)
            in hex_digit v # fill_template rnd (Suc k) cs)
      else c # fill_template rnd k cs)"

definition generateUUID :: "(nat \<Rightarrow> nat) \<Rightarrow> string" where
  "generateUUID rnd = fill_template rnd 0 ''xxxxxxxx-xxxx-4xxx-yxxx-xxxxxxxxxxxx''"

definition detectHardRefresh :: "env \<Rightarrow> storage \<Rightarrow> bool \<times> storage" where
  "detectHardRefresh env st =
     (let lastLoadTime = lastPageLoadTime st;
          currentTime = time_now env;
          isReload = (case lastLoadTime of None \<Rightarrow> False | Some t \<Rightarrow> currentTime - t < 100);
          st = st\<lparr>lastPageLoadTime := Some currentTime\<rparr>
      in case navigation_type env of
           Some type \<Rightarrow> (\<not> isReload \<or> type = 1, st)
         | None \<Rightarrow> (\<not> isReload, st))"

definition initializeChatSession :: "env \<Rightarrow> app \<Rightarrow> app" where
  "initializeChatSession env app =
     (if truthy (verificationPlanSessionId (storage app))
      then app\<lparr>chatSessionId := js_or (verificationPlanSessionId (storage app)) []\<rparr>
      else (let sessionId = ''verification_'' @ generateUUID (random16 env)
            in app\<lparr>chatSessionId := sessionId,
                    storage := (storage app)\<lparr>verificationPlanSessionId := Some sessionId\<rparr>\<rparr>))"

definition resetChatSession :: "env \<Rightarrow> app \<Rightarrow> app" where
  \<comment> \<open>the key \<^verbatim>\<open>chatSessionId\<close> is removed and then written with the new id\<close>
  "resetChatSession env app =
     (let newId = generateUUID (random16 env);
          app = app\<lparr>chatSessionId := newId,
                    storage := (storage app)\<lparr>stored_chatSessionId := Some newId\<rparr>,
                    chatMessages := [], currentPdfUris := [], currentPdfIndex := 0\<rparr>
      in showMessage msg_chat_reset ''info'' app)"

subsection \<open>The filter: default job ids and the request body\<close>

fun load_defaults :: "env \<Rightarrow> string list \<Rightarrow> app \<Rightarrow> app" where
  \<comment> \<open>the \<^verbatim>\<open>for\<close> loop of \<^verbatim>\<open>loadDefaultJobIdsForFolders\<close>; the \<^verbatim>\<open>catch\<close> inside the loop
      swallows a thrown request and a body that does not parse\<close>
  "load_defaults env [] app = app"
| "load_defaults env (folderPath # rest) app =
     (let app = app\<lparr>effects := effects app @ [Via_apiRequest (Default_job folderPath)]\<rparr>;
          app = (case default_job_reply env folderPath of
                   Inl e \<Rightarrow> app
                 | Inr response \<Rightarrow>
                     if ok response
                     then (case json response of
                             Inl e \<Rightarrow> app
                           | Inr data \<Rightarrow>
                               if truthy (job_id data)
                               then app\<lparr>folderDefaultJobIds :=
                                          assign folderPath (js_or (job_id data) [])
                                            (folderDefaultJobIds app)\<rparr>
                               else app)
                     else app)
      in load_defaults env rest app)"

definition loadDefaultJobIdsForFolders :: "env \<Rightarrow> app \<Rightarrow> app" where
  "loadDefaultJobIdsForFolders env app =
     load_defaults env (selectedFolderPaths app) (app\<lparr>folderDefaultJobIds := []\<rparr>)"

definition requestBody :: "app \<Rightarrow> string \<Rightarrow> request_body" where
  \<comment> \<open>the object \<^verbatim>\<open>requestBody\<close> that \<^verbatim>\<open>submitQuery\<close> builds for the start request\<close>
  "requestBody app q =
     (let body = \<lparr>query = q, chat_session_id = chatSessionId app, use_agent = useAgent app,
                  agent_type = agentType app, jobId = None, selected_job_id = None,
                  folder_paths = None, folder_default_job_ids = None\<rparr>
      in if truthy (selectedJobId app)
         then body\<lparr>jobId := selectedJobId app, selected_job_id := selectedJobId app\<rparr>
         else (let body = body\<lparr>folder_paths := Some (selectedFolderPaths app)\<rparr>
               in if folderDefaultJobIds app \<noteq> []
                  then body\<lparr>folder_default_job_ids := Some (folderDefaultJobIds app)\<rparr>
                  else body))"

subsection \<open>\<^verbatim>\<open>submitQuery\<close>\<close>

definition maxAttempts :: nat where
  "maxAttempts = 60"

text \<open>
  The part of \<^verbatim>\<open>submitQuery\<close> that runs before its first \<^verbatim>\<open>await\<close> yields: the two local
  checks, disabling the button and the input, the loading overlay, the user's message, and
  the start request with the body built from the state at that moment.  The flag tells
  whether a query was started.
\<close>

definition submitQuery_begin :: "env \<Rightarrow> app \<Rightarrow> bool \<times> app" where
  "submitQuery_begin env app =
     (let q = trim (queryInput_value app) in
      if q = [] then (False, showMessage msg_enter_question ''error'' app)
      else if selectedFolderPaths app = []
      then (False, showMessage msg_select_folder ''error'' app)
      else
        (let app = app\<lparr>submitQueryBtn_disabled := True, queryInput_disabled := True\<rparr>;
             app = showLoadingUI msg_generating app;
             app = addChatMessage env ''user'' q None None app;
             app = app\<lparr>queryInput_value := []\<rparr>;
             app = app\<lparr>effects := effects app @ [Via_apiRequest (Start_query (requestBody app q))]\<rparr>
         in (True, app)))"

text \<open>
  The \<^verbatim>\<open>while\<close> loop.  Each round counts the attempt, waits three seconds and asks for the
  status; an error thrown inside leaves the loop with the state reached so far.
\<close>

function poll :: "env \<Rightarrow> string option \<Rightarrow> nat \<Rightarrow> bool \<Rightarrow> app \<Rightarrow> (error + bool) \<times> app" where
  "poll env queryId attempts completed app =
     (if attempts < maxAttempts \<and> \<not> completed
      then
        (let app1 = app\<lparr>effects := effects app @
                       [Sleep 3000, Via_apiRequest (Query_status queryId)]\<rparr>
         in case status_reply env (Suc attempts) of
              Inl e \<Rightarrow> (Inl e, app1)
            | Inr statusResponse \<Rightarrow>
                (case json statusResponse of
                   Inl e \<Rightarrow> (Inl e, app1)
                 | Inr statusData \<Rightarrow>
                     if \<not> ok statusResponse
                     then (Inl (Error (js_or (job_error statusData) msg_status_failed)), app1)
                     else if job_status statusData = Some ''completed''
                     then
                       (let text = js_or (answer statusData) [];
                            sources' = (case found_sources statusData of
                                          None \<Rightarrow> [] | Some ss \<Rightarrow> ss);
                            messageId' = js_or_opt (message_id statusData) None;
                            app2 = addChatMessage env ''assistant'' text (Some sources')
                                     messageId' app1;
                            app3 = (if sources' \<noteq> [] then updatePdfList sources' app2
                                    else app2)
                        in poll env queryId (Suc attempts) True (hideLoadingUI app3))
                     else if job_status statusData = Some ''failed''
                     then (Inl (Error (js_or (job_error statusData) msg_query_failed)), app1)
                     else poll env queryId (Suc attempts) False app1))
      else (Inr completed, app))"
  by pat_completeness auto
termination
  by (relation "measure (\<lambda>(env, queryId, attempts, completed, app). maxAttempts - attempts)")
     auto

text \<open>
  What follows the start request: its answer, the loop, the \<^verbatim>\<open>catch\<close> block, which shows
  the message of whatever was thrown, and the \<^verbatim>\<open>finally\<close> block.
\<close>

definition submitQuery_await :: "env \<Rightarrow> app \<Rightarrow> app" where
  "submitQuery_await env app =
     (let (thrown, app) =
            (case start_reply env of
               Inl e \<Rightarrow> (Some e, app)
             | Inr startResponse \<Rightarrow>
                 (case json startResponse of
                    Inl e \<Rightarrow> (Some e, app)
                  | Inr startData \<Rightarrow>
                      if \<not> ok startResponse
                      then (Some (Error (js_or (start_error startData) msg_start_failed)), app)
                      else
                        (case poll env (query_id startData) 0 False app of
                           (Inl e, app) \<Rightarrow> (Some e, app)
                         | (Inr completed, app) \<Rightarrow>
                             if \<not> completed then (Some (Error msg_timeout), app)
                             else (None, app))));
          app = (case thrown of
                   None \<Rightarrow> app
                 | Some e \<Rightarrow>
                     hideLoadingUI (showMessage (msg_error_prefix @ error_message e) ''error'' app))
      in app\<lparr>submitQueryBtn_disabled := False, queryInput_disabled := False\<rparr>)"

definition submitQuery :: "env \<Rightarrow> app \<Rightarrow> app" where
  "submitQuery env app =
     (let (started, app) = submitQuery_begin env app
      in if started then submitQuery_await env app else app)"

subsection \<open>Feedback\<close>

fun update_first :: "('a \<Rightarrow> bool) \<Rightarrow> ('a \<Rightarrow> 'a) \<Rightarrow> 'a list \<Rightarrow> 'a list" where
  \<comment> \<open>\<^verbatim>\<open>find\<close> followed by assignments to the object found: the first match changes in place\<close>
  "update_first P f [] = []"
| "update_first P f (x # xs) = (if P x then f x # xs else x # update_first P f xs)"

text \<open>
  \<^verbatim>\<open>submitFeedback\<close> awaits the request and then the body of the response, and writes to the
  message after both.  The part before the first \<^verbatim>\<open>await\<close> builds the payload from the state
  at that moment and hands it to \<^verbatim>\<open>this.apiRequest\<close>; the part after the second runs when
  the reply has arrived, on the state that the page has then.  Other handlers run in between.
\<close>

definition submitFeedback_send :: "string \<Rightarrow> int option \<Rightarrow> string option \<Rightarrow> app \<Rightarrow> app" where
  "submitFeedback_send mid rating' comment' app =
     app\<lparr>effects := effects app @
           [Via_apiRequest (Update_feedback mid (chatSessionId app) rating' comment')]\<rparr>"

definition submitFeedback_settle ::
  "unit reply \<Rightarrow> string \<Rightarrow> int option \<Rightarrow> string option \<Rightarrow> app \<Rightarrow> app" where
  \<comment> \<open>\<open>reply\<close> is what \<^verbatim>\<open>this.apiRequest\<close> gives to the feedback request\<close>
  "submitFeedback_settle reply mid rating' comment' app =
     (let thrown =
            (case reply of
               Inl e \<Rightarrow> Some e
             | Inr response \<Rightarrow>
                 if \<not> ok response then Some (Error msg_feedback_failed)
                 else (case json response of Inl e \<Rightarrow> Some e | Inr result \<Rightarrow> None))
      in case thrown of
           None \<Rightarrow>
             app\<lparr>chatMessages :=
                   update_first (\<lambda>m. messageId m = Some mid)
                     (\<lambda>messageObj.
                        let messageObj = (case rating' of None \<Rightarrow> messageObj
                                          | Some r \<Rightarrow> messageObj\<lparr>rating := Some r\<rparr>)
                        in case comment' of None \<Rightarrow> messageObj
                           | Some c \<Rightarrow> messageObj\<lparr>comment := Some c\<rparr>)
                     (chatMessages app)\<rparr>
         | Some e \<Rightarrow> showMessage (msg_feedback_failed @ '': '' @ error_message e) ''error'' app)"

definition submitFeedback ::
  "unit reply \<Rightarrow> string \<Rightarrow> int option \<Rightarrow> string option \<Rightarrow> app \<Rightarrow> app" where
  \<comment> \<open>a call during which nothing else runs\<close>
  "submitFeedback reply mid rating' comment' app =
     submitFeedback_settle reply mid rating' comment' (submitFeedback_send mid rating' comment' app)"

text \<open>
  The rating buttons stay enabled while a request is out, so the calls that the clicks start
  may overlap, and the replies may arrive in any order.  A run of feedback is a list of
  events, each the beginning of a call or the arrival of the reply of one.
\<close>

datatype feedback_event =
    Feedback_sent string "int option" "string option"
  | Feedback_settled "unit reply" string "int option" "string option"

fun feedback_step :: "app \<Rightarrow> feedback_event \<Rightarrow> app" where
  "feedback_step app (Feedback_sent mid rating' comment') =
     submitFeedback_send mid rating' comment' app"
| "feedback_step app (Feedback_settled reply mid rating' comment') =
     submitFeedback_settle reply mid rating' comment' app"

definition feedback_run :: "feedback_event list \<Rightarrow> app \<Rightarrow> app" where
  "feedback_run events app = foldl feedback_step app events"

subsection \<open>History of a job\<close>

definition loadChatHistory :: "env \<Rightarrow> app \<Rightarrow> app" where
  \<comment> \<open>the request goes out with \<^verbatim>\<open>fetch\<close> and the one header the call site writes\<close>
  "loadChatHistory env app =
     (case selectedJobId app of
        None \<Rightarrow> app
      | Some job \<Rightarrow>
          if job = [] then app
          else
            (let app = app\<lparr>effects := effects app @
                          [Direct_fetch (History_of_job job)
                             [(''Content-Type'', ''application/json'')]]\<rparr>
             in case history_reply env of
                  Inl e \<Rightarrow> app
                | Inr response \<Rightarrow>
                    if ok response
                    then (case json response of
                            Inl e \<Rightarrow> app
                          | Inr data \<Rightarrow>
                              app\<lparr>chatMessages :=
                                    (case messages data of None \<Rightarrow> [] | Some ms \<Rightarrow> ms)\<rparr>)
                    else app))"

subsection \<open>Choosing the search target, loading the page\<close>

text \<open>
  Opening the dialog asks for the folder tree and draws a check box for each leaf folder and a
  tag for each selected folder; it writes none of the fields of this state.  The check boxes
  and the crosses of the tags write the selection itself, not a copy that the dialog keeps.
\<close>

definition toggleFolderSelection :: "string \<Rightarrow> bool \<Rightarrow> app \<Rightarrow> app" where
  \<comment> \<open>a check box of the dialog changes, or the cross of a tag is clicked\<close>
  "toggleFolderSelection folderPath isSelected app =
     (if isSelected
      then (if folderPath \<in> set (selectedFolderPaths app) then app
            else app\<lparr>selectedFolderPaths := selectedFolderPaths app @ [folderPath]\<rparr>)
      else app\<lparr>selectedFolderPaths := filter (\<lambda>p. p \<noteq> folderPath) (selectedFolderPaths app)\<rparr>)"

definition closeSearchTargetModal :: "app \<Rightarrow> app" where
  \<comment> \<open>the cancel button, the cross and a click beside the dialog: the dialog is hidden,
      which is no part of this state, and no field is written\<close>
  "closeSearchTargetModal app = app"

definition applySearchTarget :: "env \<Rightarrow> app \<Rightarrow> app" where
  \<comment> \<open>two arrays have the same sorted JSON text exactly when they hold the same strings the
      same number of times\<close>
  "applySearchTarget env app =
     (if selectedFolderPaths app = [] then app
      else
        (let hasActiveSession = (chatMessages app \<noteq> []);
             previousFolderPaths = (case stored_selectedFolderPaths (storage app) of
                                      None \<Rightarrow> [] | Some ps \<Rightarrow> ps);
             previousJobId = stored_selectedJobId (storage app);
             newJobId = (let v = trim (jobIdInputModal_value env)
                         in if v = [] then None else Some v);
             foldersChanged = (mset previousFolderPaths \<noteq> mset (selectedFolderPaths app));
             jobIdChanged = (previousJobId \<noteq> newJobId);
             searchTargetChanged = (foldersChanged \<or> jobIdChanged)
         in if hasActiveSession \<and> searchTargetChanged \<and> \<not> confirm_reset env then app
            else
              (let app = (if hasActiveSession \<and> searchTargetChanged
                          then resetChatSession env app else app);
                   app = app\<lparr>selectedJobId := newJobId\<rparr>;
                   app = app\<lparr>storage := (storage app)
                            \<lparr>stored_selectedFolderPaths := Some (selectedFolderPaths app),
                             stored_selectedJobId := newJobId\<rparr>\<rparr>;
                   app = loadDefaultJobIdsForFolders env app
               in app\<lparr>queryInput_disabled := False\<rparr>)))"

definition loadSearchTargetFromStorage :: "env \<Rightarrow> app \<Rightarrow> app" where
  "loadSearchTargetFromStorage env app =
     (if isHardRefresh app
      then app\<lparr>storage := (storage app)
                  \<lparr>stored_selectedFolderPaths := None, stored_selectedJobId := None\<rparr>,
               selectedFolderPaths := [], selectedJobId := None, folderDefaultJobIds := [],
               queryInput_disabled := True\<rparr>
      else
        (let app = (case stored_selectedFolderPaths (storage app) of
                      None \<Rightarrow> app
                    | Some ps \<Rightarrow> app\<lparr>selectedFolderPaths := ps\<rparr>);
             app = (if truthy (stored_selectedJobId (storage app))
                    then app\<lparr>selectedJobId := stored_selectedJobId (storage app)\<rparr>
                    else app)
         in if selectedFolderPaths app \<noteq> []
            then (loadDefaultJobIdsForFolders env app)\<lparr>queryInput_disabled := False\<rparr>
            else app\<lparr>queryInput_disabled := True\<rparr>))"

text \<open>
  Loading the page runs the constructor on the storage that the tab has kept: it detects the
  kind of load, sets the fields to their initial values, initialises the chat session and
  restores the search target.  A fresh document has an empty input and an enabled button.
\<close>

definition new_KnowledgeQueryApp :: "env \<Rightarrow> storage \<Rightarrow> app" where
  "new_KnowledgeQueryApp env st =
     (let (hard, st) = detectHardRefresh env st;
          app = \<lparr>selectedJobId = None, selectedFolderPaths = [], folderDefaultJobIds = [],
                 chatSessionId = [], useAgent = True, agentType = ''verification'',
                 chatMessages = [], currentPdfUris = [], currentPdfIndex = 0,
                 isHardRefresh = hard, queryInput_value = [], queryInput_disabled = False,
                 submitQueryBtn_disabled = False, queryStatus = None, loadingUI = None,
                 storage = st, effects = []\<rparr>;
          app = initializeChatSession env app
      in loadSearchTargetFromStorage env app)"

subsection \<open>Events of the page\<close>

text \<open>
  The handlers that \<^verbatim>\<open>attachEventListeners\<close> installs, run one event at a time as the event
  loop does.  The browser delivers no click to a disabled button and no key to a disabled
  text area.  The number counts the queries that have begun and not yet reached their
  \<^verbatim>\<open>finally\<close> block; \<open>Query_settles\<close> is the moment one of them does.
\<close>

datatype ui_event =
    Type_query string
  | Click_submit
  | Press_enter
  | Apply_search_target
  | Query_settles

fun ui_step :: "env \<Rightarrow> app \<times> nat \<Rightarrow> ui_event \<Rightarrow> app \<times> nat" where
  "ui_step env (app, in_flight) (Type_query s) =
     (if queryInput_disabled app then (app, in_flight)
      else (app\<lparr>queryInput_value := s\<rparr>, in_flight))"
| "ui_step env (app, in_flight) Click_submit =
     (if submitQueryBtn_disabled app then (app, in_flight)
      else (let (started, app) = submitQuery_begin env app
            in (app, if started then Suc in_flight else in_flight)))"
| "ui_step env (app, in_flight) Press_enter =
     (if queryInput_disabled app then (app, in_flight)
      else (let (started, app) = submitQuery_begin env app
            in (app, if started then Suc in_flight else in_flight)))"
| "ui_step env (app, in_flight) Apply_search_target = (applySearchTarget env app, in_flight)"
| "ui_step env (app, in_flight) Query_settles =
     (if in_flight = 0 then (app, in_flight)
      else (submitQuery_await env app, in_flight - 1))"

definition ui_run :: "env \<Rightarrow> app \<times> nat \<Rightarrow> ui_event list \<Rightarrow> app \<times> nat" where
  "ui_run env s events = foldl (ui_step env) s events"

section \<open>Notions used in the statements\<close>


fun lt_ok :: "string \<Rightarrow> bool" where
  "lt_ok [] = True"
| "lt_ok (c # cs) = ((c = CHR ''<'' \<longrightarrow> prefix ''br>'' cs) \<and> lt_ok cs)"

text \<open>
  The rating that the transcript holds for a message id (the message that \<^verbatim>\<open>find\<close> returns),
  a feedback request that the server confirmed (the call returned a response, the response is
  \<^verbatim>\<open>ok\<close> and its body parses), and the assignments that a confirmed call makes to the
  message.  An event rates a message when it is the arrival of a confirmed reply to a call
  that submitted a rating for it.  Calls made one after another, each settled before the next
  begins, are the run in which every beginning is followed by its own reply.
\<close>

definition rating_of :: "string \<Rightarrow> app \<Rightarrow> int option" where
  "rating_of mid app =
     (case find (\<lambda>m. messageId m = Some mid) (chatMessages app) of
        None \<Rightarrow> None | Some m \<Rightarrow> rating m)"

definition confirmed :: "unit reply \<Rightarrow> bool" where
  "confirmed reply =
     (case reply of
        Inl e \<Rightarrow> False
      | Inr response \<Rightarrow> ok response \<and> (case json response of Inl e \<Rightarrow> False | Inr u \<Rightarrow> True))"

definition set_feedback :: "int option \<Rightarrow> string option \<Rightarrow> message \<Rightarrow> message" where
  "set_feedback r c m =
     (let m = (case r of None \<Rightarrow> m | Some v \<Rightarrow> m\<lparr>rating := Some v\<rparr>)
      in case c of None \<Rightarrow> m | Some t \<Rightarrow> m\<lparr>comment := Some t\<rparr>)"

fun rates :: "string \<Rightarrow> feedback_event \<Rightarrow> bool" where
  "rates mid (Feedback_settled reply mid' (Some v) c) = (mid' = mid \<and> confirmed reply)"
| "rates mid (Feedback_settled reply mid' None c) = False"
| "rates mid (Feedback_sent mid' r c) = False"

fun one_after_another ::
  "(unit reply \<times> string \<times> int option \<times> string option) list \<Rightarrow> feedback_event list" where
  "one_after_another [] = []"
| "one_after_another ((reply, mid, r, c) # submissions) =
     Feedback_sent mid r c # Feedback_settled reply mid r c # one_after_another submissions"

text \<open>
  A status answer that leaves the query pending: the request returned a response, the
  response is \<^verbatim>\<open>ok\<close>, its body parses and its status is neither \<^verbatim>\<open>completed\<close> nor
  \<^verbatim>\<open>failed\<close>.  The number of status requests among some effects, and the effects of one round
  of the loop.
\<close>

definition pending :: "status_data reply \<Rightarrow> bool" where
  "pending reply =
     (case reply of
        Inl e \<Rightarrow> False
      | Inr response \<Rightarrow>
          ok response \<and>
          (case json response of
             Inl e \<Rightarrow> False
           | Inr statusData \<Rightarrow>
               job_status statusData \<noteq> Some ''completed''
               \<and> job_status statusData \<noteq> Some ''failed''))"

fun is_status_request :: "effect \<Rightarrow> bool" where
  "is_status_request (Via_apiRequest (Query_status q)) = True"
| "is_status_request e = False"

definition status_polls :: "effect list \<Rightarrow> nat" where
  "status_polls es = length (filter is_status_request es)"

definition poll_round :: "string option \<Rightarrow> effect list" where
  "poll_round queryId = [Sleep 3000, Via_apiRequest (Query_status queryId)]"

text \<open>
  The default job id that the lookup of a folder yields, if any; the filter pairs that a
  start request carries (none when the field is absent); the pairs that the lookups of a
  list of folders yield and an object can hold; and an association list that has one entry
  for each key, each agreeing with the lookup of its key.
\<close>

definition known_default :: "default_job_data reply \<Rightarrow> string option" where
  "known_default reply =
     (case reply of
        Inl e \<Rightarrow> None
      | Inr response \<Rightarrow>
          if ok response
          then (case json response of
                  Inl e \<Rightarrow> None
                | Inr data \<Rightarrow> if truthy (job_id data) then job_id data else None)
          else None)"

definition submitted_pairs :: "request_body \<Rightarrow> (string \<times> string) list" where
  "submitted_pairs body = (case folder_default_job_ids body of None \<Rightarrow> [] | Some pairs \<Rightarrow> pairs)"

definition known_pairs :: "env \<Rightarrow> string list \<Rightarrow> (string \<times> string) set" where
  "known_pairs env ps =
     {(p, j). p \<in> set ps \<and> p \<noteq> ''__proto__''
              \<and> known_default (default_job_reply env p) = Some j}"

definition agrees :: "env \<Rightarrow> (string \<times> string) list \<Rightarrow> bool" where
  "agrees env obj =
     (distinct (map fst obj)
      \<and> (\<forall>(k, v) \<in> set obj. known_default (default_job_reply env k) = Some v))"

text \<open>The session ids of the start requests among some effects, in order.\<close>

fun started_sessions :: "effect list \<Rightarrow> string list" where
  "started_sessions [] = []"
| "started_sessions (Via_apiRequest (Start_query body) # es) =
     chat_session_id body # started_sessions es"
| "started_sessions (e # es) = started_sessions es"

text \<open>
  Among some calls: the number of transport calls, and the outcomes of the refreshes that the
  401 branch of \<^verbatim>\<open>apiRequest\<close> asked for.  The calls that an operation added to those made
  before.  Calls are quiet when none of them is a transport call or such a refresh, and a
  world extends another when it differs by quiet calls and by the state of the credential
  manager only.
\<close>

fun is_fetch :: "call \<Rightarrow> bool" where
  "is_fetch (Fetch url headers) = True"
| "is_fetch c = False"

definition fetches :: "call list \<Rightarrow> nat" where
  "fetches cs = length (filter is_fetch cs)"

fun handler_refreshes :: "call list \<Rightarrow> bool list" where
  "handler_refreshes [] = []"
| "handler_refreshes (Refresh_by_apiRequest b # cs) = b # handler_refreshes cs"
| "handler_refreshes (c # cs) = handler_refreshes cs"

definition new_calls :: "'a world \<Rightarrow> 'a world \<Rightarrow> call list" where
  "new_calls w w' = drop (length (calls w)) (calls w')"

definition quiet :: "call list \<Rightarrow> bool" where
  "quiet cs = (fetches cs = 0 \<and> handler_refreshes cs = [])"

definition extends :: "'a world \<Rightarrow> 'a world \<Rightarrow> bool" where
  "extends w w' =
     (fetch w' = fetch w \<and> fetch_calls w' = fetch_calls w \<and> authManager w' = authManager w
      \<and> location_href w' = location_href w
      \<and> (\<exists>extra. calls w' = calls w @ extra \<and> quiet extra))"

text \<open>The requests among some effects that were sent with \<^verbatim>\<open>fetch\<close> directly.\<close>

fun is_direct :: "effect \<Rightarrow> bool" where
  "is_direct (Direct_fetch request headers) = True"
| "is_direct e = False"

definition direct_fetches :: "effect list \<Rightarrow> effect list" where
  "direct_fetches es = filter is_direct es"

section \<open>Concrete inputs\<close>

definition confirming :: "unit reply" where
  "confirming = Inr (Response 200 (Inr ()))"

definition refusing :: "unit reply" where
  "refusing = Inr (Response 500 (Inr ()))"

definition overlapping_ratings :: "feedback_event list" where
  \<comment> \<open>the rating 3 is clicked and, before its reply arrives, the rating 7; the reply to the
      second request arrives first\<close>
  "overlapping_ratings =
     [Feedback_sent ''m1'' (Some 3) None, Feedback_sent ''m1'' (Some 7) None,
      Feedback_settled confirming ''m1'' (Some 7) None,
      Feedback_settled confirming ''m1'' (Some 3) None]"

definition answered_page :: app where
  \<comment> \<open>a page with one folder chosen, one question asked and answered\<close>
  "answered_page =
     \<lparr>selectedJobId = None, selectedFolderPaths = [''manuals''],
      folderDefaultJobIds = [(''manuals'', ''job-7'')],
      chatSessionId = ''verification_0f1e2d3c-4b5a-4978-8695-a4b3c2d1e0f9'',
      useAgent = True, agentType = ''verification'',
      chatMessages =
        [\<lparr>role = ''user'', content = ''torque?'', sources = None, timestamp = ''10:00'',
          messageId = None, rating = None, comment = None\<rparr>,
         \<lparr>role = ''assistant'', content = ''12 Nm'', sources = Some [], timestamp = ''10:01'',
          messageId = Some ''m1'', rating = None, comment = None\<rparr>],
      currentPdfUris = [], currentPdfIndex = 0, isHardRefresh = False,
      queryInput_value = [], queryInput_disabled = False, submitQueryBtn_disabled = False,
      queryStatus = None, loadingUI = None,
      storage = \<lparr>lastPageLoadTime = Some 1000,
                 verificationPlanSessionId =
                   Some ''verification_0f1e2d3c-4b5a-4978-8695-a4b3c2d1e0f9'',
                 stored_chatSessionId = None,
                 stored_selectedFolderPaths = Some [''manuals''],
                 stored_selectedJobId = None\<rparr>,
      effects = []\<rparr>"

definition waiting_env :: env where
  \<comment> \<open>a backend that starts every query and then reports \<^verbatim>\<open>processing\<close> for ever, and knows
      a default job for the folder \<^verbatim>\<open>manuals\<close> only\<close>
  "waiting_env =
     \<lparr>start_reply = Inr (Response 200 (Inr \<lparr>query_id = Some ''q-1'', start_error = None\<rparr>)),
      status_reply = (\<lambda>k. Inr (Response 200 (Inr
        \<lparr>job_status = Some ''processing'', answer = None, found_sources = None,
         message_id = None, job_error = None\<rparr>))),
      default_job_reply = (\<lambda>path. Inr (Response 200 (Inr
        \<lparr>job_id = (if path = ''manuals'' then Some ''job-7'' else None)\<rparr>))),
      history_reply = Inr (Response 200 (Inr \<lparr>messages = None\<rparr>)),
      locale_time = (\<lambda>n. ''2025/11/5 10:02:00''),
      fallback_id = (\<lambda>n. ''2025-11-05T01:02:00.000Z#k3j9x0a1b''),
      random16 = (\<lambda>k. 7 * k + 3),
      time_now = 5000, navigation_type = Some 1,
      confirm_reset = True, jobIdInputModal_value = []\<rparr>"

definition stocked_env :: env where
  \<comment> \<open>the same backend, knowing a default job for every folder\<close>
  "stocked_env =
     waiting_env\<lparr>default_job_reply := (\<lambda>path. Inr (Response 200 (Inr
       \<lparr>job_id = Some (if path = ''manuals'' then ''job-7'' else ''job-9'')\<rparr>)))\<rparr>"

definition stale_page :: app where
  \<comment> \<open>the dialog is applied with the folder \<^verbatim>\<open>manuals\<close> and opened again; \<^verbatim>\<open>manuals\<close> is
      unticked, \<^verbatim>\<open>drafts\<close> is ticked, the dialog is cancelled and a question is typed\<close>
  "stale_page =
     (closeSearchTargetModal
        (toggleFolderSelection ''drafts'' True
           (toggleFolderSelection ''manuals'' False
              (applySearchTarget stocked_env answered_page))))
       \<lparr>queryInput_value := ''torque?''\<rparr>"

definition proto_page :: app where
  \<comment> \<open>a folder whose name is that of the prototype accessor is chosen\<close>
  "proto_page = answered_page\<lparr>selectedFolderPaths := [''__proto__''],
                               queryInput_value := ''torque?''\<rparr>"

definition asking_page :: app where
  \<comment> \<open>two folders chosen and a question typed\<close>
  "asking_page =
     answered_page\<lparr>selectedFolderPaths := [''manuals'', ''drafts''],
                   queryInput_value := '' torque? ''\<rparr>"

definition explicit_page :: app where
  \<comment> \<open>the same with a job id given in the dialog\<close>
  "explicit_page = asking_page\<lparr>selectedJobId := Some ''job-42''\<rparr>"

definition kept_storage :: storage where
  \<comment> \<open>what a tab holds after a first visit on which no folder was chosen\<close>
  "kept_storage =
     \<lparr>lastPageLoadTime = Some 1000,
      verificationPlanSessionId = Some ''verification_0f1e2d3c-4b5a-4978-8695-a4b3c2d1e0f9'',
      stored_chatSessionId = None,
      stored_selectedFolderPaths = None,
      stored_selectedJobId = None\<rparr>"

definition two_submissions :: "ui_event list" where
  \<comment> \<open>a question is submitted; while it is in flight the search-target dialog is applied
      unchanged, and a second question is typed and sent with the Enter key\<close>
  "two_submissions =
     [Type_query ''first'', Click_submit, Apply_search_target, Type_query ''second'', Press_enter]"

definition revoked_world :: "unit world" where
  \<comment> \<open>signed in with an unexpired access token that the backend refuses; the identity
      provider rejects the refresh token\<close>
  "revoked_world =
     \<lparr>cognito_access_token = Some ''access-1'', cognito_id_token = Some ''id-1'',
      cognito_refresh_token = Some ''refresh-1'', cognito_token_expires_at = Some 9000000,
      cognito_user_email = Some ''user@example.com'', sessionToken = Some ''access-1'',
      cognitoIdentityServiceProvider = True, authManager = True,
      date_now = (\<lambda>k. 1000000 + int k), date_reads = 0,
      initiateAuth = (\<lambda>k. Rejected \<lparr>err_code = Some ''NotAuthorizedException'',
                                       err_name = None,
                                       err_message = Some ''Refresh Token has expired''\<rparr>),
      initiateAuth_calls = 0,
      fetch = (\<lambda>k. Inr (Response 401 (Inr ()))), fetch_calls = 0,
      location_href = None, calls = []\<rparr>"

definition renewing_world :: "unit world" where
  \<comment> \<open>the same, but the identity provider issues new tokens and the backend accepts the
      second request\<close>
  "renewing_world =
     revoked_world
       \<lparr>initiateAuth := (\<lambda>k. AuthenticationResult ''access-2'' ''id-2'' (Some 3600)),
        fetch := (\<lambda>k. if k = 0 then Inr (Response 401 (Inr ())) else Inr (Response 200 (Inr ())))\<rparr>"

section \<open>Escaping and rendering\<close>









lemma lt_ok_no_lt: "CHR ''<'' \<notin> set xs \<Longrightarrow> lt_ok (xs @ ys) = lt_ok ys"
  by (induction xs) auto











section \<open>Feedback\<close>

lemma chatMessages_send: "chatMessages (submitFeedback_send mid r c app) = chatMessages app"
  by (simp add: submitFeedback_send_def)

lemma settle_confirmed:
  "confirmed reply \<Longrightarrow>
   chatMessages (submitFeedback_settle reply mid r c app) =
     update_first (\<lambda>m. messageId m = Some mid) (set_feedback r c) (chatMessages app)"
proof -
  have "(\<lambda>messageObj.
           let messageObj = (case r of None \<Rightarrow> messageObj
                             | Some v \<Rightarrow> messageObj\<lparr>rating := Some v\<rparr>)
           in case c of None \<Rightarrow> messageObj
              | Some t \<Rightarrow> messageObj\<lparr>comment := Some t\<rparr>) = set_feedback r c"
    by (rule ext) (simp add: set_feedback_def)
  moreover assume "confirmed reply"
  ultimately show ?thesis
    by (auto simp: confirmed_def submitFeedback_settle_def split: sum.splits)
qed

lemma settle_unconfirmed:
  "\<not> confirmed reply \<Longrightarrow> chatMessages (submitFeedback_settle reply mid r c app) = chatMessages app"
  by (auto simp: confirmed_def submitFeedback_settle_def showMessage_def Let_def
           split: sum.splits option.splits)

lemma submitFeedback_confirmed:
  "confirmed reply \<Longrightarrow>
   chatMessages (submitFeedback reply mid r c app) =
     update_first (\<lambda>m. messageId m = Some mid) (set_feedback r c) (chatMessages app)"
  by (simp add: submitFeedback_def settle_confirmed chatMessages_send)

lemma messageId_set_feedback: "messageId (set_feedback r c m) = messageId m"
  by (simp add: set_feedback_def Let_def split: option.splits)

lemma rating_set_feedback:
  "rating (set_feedback r c m) = (case r of None \<Rightarrow> rating m | Some v \<Rightarrow> Some v)"
  by (simp add: set_feedback_def Let_def split: option.splits)

lemma find_update_first:
  "(\<And>x. P (f x) = P x) \<Longrightarrow> find P (update_first P f xs) = map_option f (find P xs)"
  by (induction xs) auto

lemma find_update_first_other:
  "(\<And>x. P (f x) = P x) \<Longrightarrow> (\<And>x. Q x \<Longrightarrow> \<not> P x) \<Longrightarrow>
   find P (update_first Q f xs) = find P xs"
  by (induction xs) auto

lemma update_first_idem:
  "(\<And>x. P (f x) = P x) \<Longrightarrow> (\<And>x. f (f x) = f x) \<Longrightarrow>
   update_first P f (update_first P f xs) = update_first P f xs"
  by (induction xs) auto

lemma map_update_first:
  "(\<And>x. g (f x) = g x) \<Longrightarrow> map g (update_first P f xs) = map g xs"
  by (induction xs) auto

lemma set_feedback_idem: "set_feedback r c (set_feedback r c m) = set_feedback r c m"
  by (simp add: set_feedback_def Let_def split: option.splits)

lemma find_messageId_Some:
  "(\<exists>m \<in> set ms. messageId m = Some mid) \<longleftrightarrow> find (\<lambda>m. messageId m = Some mid) ms \<noteq> None"
  by (auto simp: find_None_iff)

lemma messageIds_step:
  "map messageId (chatMessages (feedback_step app e)) = map messageId (chatMessages app)"
proof (cases e)
  case (Feedback_sent mid r c)
  then show ?thesis by (simp add: chatMessages_send)
next
  case (Feedback_settled reply mid r c)
  show ?thesis
  proof (cases "confirmed reply")
    case True
    then show ?thesis
      by (simp add: Feedback_settled settle_confirmed map_update_first messageId_set_feedback)
  next
    case False
    then show ?thesis by (simp add: Feedback_settled settle_unconfirmed)
  qed
qed

lemma present_step:
  "(\<exists>m \<in> set (chatMessages (feedback_step app e)). messageId m = Some mid)
   \<longleftrightarrow> (\<exists>m \<in> set (chatMessages app). messageId m = Some mid)"
proof -
  have "(\<exists>m \<in> set ms. messageId m = Some mid) \<longleftrightarrow> Some mid \<in> set (map messageId ms)"
    for ms :: "message list"
    by force
  then show ?thesis by (simp only: messageIds_step)
qed

lemma feedback_run_snoc:
  "feedback_run (events @ [e]) app = feedback_step (feedback_run events app) e"
  by (simp add: feedback_run_def)

lemma feedback_run_append:
  "feedback_run (xs @ ys) app = feedback_run ys (feedback_run xs app)"
  by (simp add: feedback_run_def)

lemma present_run:
  "(\<exists>m \<in> set (chatMessages (feedback_run events app)). messageId m = Some mid)
   \<longleftrightarrow> (\<exists>m \<in> set (chatMessages app). messageId m = Some mid)"
proof (induction events rule: rev_induct)
  case Nil
  show ?case by (simp add: feedback_run_def)
next
  case (snoc e events)
  show ?case unfolding feedback_run_snoc present_step by (rule snoc.IH)
qed

lemma rating_of_settle:
  assumes "confirmed reply" and "\<exists>m \<in> set (chatMessages app). messageId m = Some mid"
  shows "rating_of mid (submitFeedback_settle reply mid (Some v) c app) = Some v"
proof -
  from assms(2) obtain m where "find (\<lambda>m. messageId m = Some mid) (chatMessages app) = Some m"
    unfolding find_messageId_Some by blast
  then show ?thesis
    by (simp add: rating_of_def settle_confirmed [OF assms(1)] find_update_first
          messageId_set_feedback rating_set_feedback)
qed

lemma rating_of_step:
  assumes "\<not> rates mid e"
  shows "rating_of mid (feedback_step app e) = rating_of mid app"
proof (cases e)
  case (Feedback_sent mid' r c)
  then show ?thesis by (simp add: rating_of_def chatMessages_send)
next
  case (Feedback_settled reply mid' r c)
  show ?thesis
  proof (cases "confirmed reply")
    case False
    then show ?thesis by (simp add: Feedback_settled rating_of_def settle_unconfirmed)
  next
    case True
    show ?thesis
    proof (cases "mid' = mid")
      case False
      then have "find (\<lambda>m. messageId m = Some mid)
                   (update_first (\<lambda>m. messageId m = Some mid') (set_feedback r c) (chatMessages app))
                 = find (\<lambda>m. messageId m = Some mid) (chatMessages app)"
        by (intro find_update_first_other) (simp_all add: messageId_set_feedback)
      then show ?thesis
        by (simp add: Feedback_settled rating_of_def settle_confirmed [OF True])
    next
      case same: True
      with assms True have "r = None"
        by (cases r) (simp_all add: Feedback_settled)
      then show ?thesis
        by (simp add: Feedback_settled same rating_of_def settle_confirmed [OF True]
              find_update_first messageId_set_feedback rating_set_feedback
              split: option.splits)
    qed
  qed
qed

lemma rating_of_run:
  assumes "\<forall>e \<in> set events. \<not> rates mid e"
  shows "rating_of mid (feedback_run events app) = rating_of mid app"
  using assms
proof (induction events rule: rev_induct)
  case Nil
  show ?case by (simp add: feedback_run_def)
next
  case (snoc e events)
  then show ?case by (simp add: feedback_run_snoc rating_of_step)
qed

lemma rating_after_confirmed:
  assumes "\<exists>m \<in> set (chatMessages app). messageId m = Some mid"
      and "confirmed reply"
      and "\<forall>e \<in> set later. \<not> rates mid e"
  shows "rating_of mid
           (feedback_run (earlier @ Feedback_settled reply mid (Some v) c # later) app) = Some v"
proof -
  have split: "earlier @ Feedback_settled reply mid (Some v) c # later
                 = (earlier @ [Feedback_settled reply mid (Some v) c]) @ later"
    by simp
  from assms(1)
  have "\<exists>m \<in> set (chatMessages (feedback_run earlier app)). messageId m = Some mid"
    by (simp only: present_run)
  with assms(2)
  have "rating_of mid
          (submitFeedback_settle reply mid (Some v) c (feedback_run earlier app)) = Some v"
    by (rule rating_of_settle)
  then show ?thesis
    unfolding split feedback_run_append [of _ later] rating_of_run [OF assms(3)]
    by (simp add: feedback_run_snoc)
qed

lemma one_after_another_snoc:
  "one_after_another (submissions @ [(reply, mid, r, c)])
     = one_after_another submissions @ [Feedback_sent mid r c, Feedback_settled reply mid r c]"
  by (induction submissions rule: one_after_another.induct) simp_all

lemma submitFeedback_is_run:
  "submitFeedback reply mid r c app = feedback_run (one_after_another [(reply, mid, r, c)]) app"
  by (simp add: submitFeedback_def feedback_run_def)

text \<open>
  Claim C9.  The rating that the transcript holds is the one of the confirmed reply that
  arrived last, whatever the order in which the calls began.  Two calls for the message
  \<open>m1\<close> overlap: the request with rating 3 is sent, then the request with rating 7, and the
  reply to the second arrives before the reply to the first.  Both are confirmed, and the
  message is left with the rating 3, not with the rating 7 that was submitted last.
\<close>

theorem overlapping_feedback_keeps_earlier_rating:
  "effects (feedback_run overlapping_ratings answered_page) =
     [Via_apiRequest (Update_feedback ''m1'' (chatSessionId answered_page) (Some 3) None),
      Via_apiRequest (Update_feedback ''m1'' (chatSessionId answered_page) (Some 7) None)]
   \<and> confirmed confirming
   \<and> rating_of ''m1'' (feedback_run overlapping_ratings answered_page) = Some 3"
  by (simp add: overlapping_ratings_def feedback_run_def submitFeedback_send_def
        submitFeedback_settle_def rating_of_def answered_page_def confirming_def
        confirmed_def ok_def)

text \<open>
  Claim C9, as the code has it.  For a message of the transcript, in any run of beginnings
  and replies of \<^verbatim>\<open>submitFeedback\<close> calls, once the confirmed reply to a call that submitted a
  rating for the message has arrived and no later event rates the message, the message
  holds that rating: the rating of the confirmed reply that arrived last.  For calls made
  one after another this is the rating submitted last.  A confirmed call repeated with the
  same arguments leaves the transcript as one call leaves it, also when the two overlap.
  Sending the request writes nothing to the transcript, and a reply that does not confirm
  leaves it unchanged, so rating and comment change only after confirmation.
\<close>

theorem feedback_rating_is_last_confirmed:
  assumes present: "\<exists>m \<in> set (chatMessages app). messageId m = Some mid"
      and sent: "confirmed reply"
      and later: "\<forall>e \<in> set later. \<not> rates mid e"
  shows "rating_of mid
           (feedback_run (earlier @ Feedback_settled reply mid (Some v) c # later) app) = Some v
         \<and> rating_of mid
             (feedback_run (one_after_another (submissions @ [(reply, mid, Some v, c)])) app) = Some v
         \<and> chatMessages (submitFeedback reply mid r c (submitFeedback reply mid r c app))
             = chatMessages (submitFeedback reply mid r c app)
         \<and> chatMessages
             (feedback_run [Feedback_sent mid r c, Feedback_sent mid r c,
                            Feedback_settled reply mid r c, Feedback_settled reply mid r c] app)
             = chatMessages (submitFeedback reply mid r c app)
         \<and> chatMessages (submitFeedback_send mid r c app) = chatMessages app
         \<and> (\<not> confirmed failed \<longrightarrow>
              chatMessages (submitFeedback_settle failed mid r c app) = chatMessages app)"
proof (intro conjI impI)
  show "rating_of mid
          (feedback_run (earlier @ Feedback_settled reply mid (Some v) c # later) app) = Some v"
    using present sent later by (rule rating_after_confirmed)
next
  have "rating_of mid
          (feedback_run ((one_after_another submissions @ [Feedback_sent mid (Some v) c])
             @ Feedback_settled reply mid (Some v) c # []) app) = Some v"
    using present sent by (rule rating_after_confirmed) simp
  then show "rating_of mid
          (feedback_run (one_after_another (submissions @ [(reply, mid, Some v, c)])) app) = Some v"
    by (simp add: one_after_another_snoc)
next
  show "chatMessages (submitFeedback reply mid r c (submitFeedback reply mid r c app))
          = chatMessages (submitFeedback reply mid r c app)"
    by (simp add: submitFeedback_confirmed [OF sent] update_first_idem
          messageId_set_feedback set_feedback_idem)
next
  show "chatMessages
          (feedback_run [Feedback_sent mid r c, Feedback_sent mid r c,
                         Feedback_settled reply mid r c, Feedback_settled reply mid r c] app)
          = chatMessages (submitFeedback reply mid r c app)"
    by (simp add: feedback_run_def submitFeedback_confirmed [OF sent]
          settle_confirmed [OF sent] chatMessages_send update_first_idem
          messageId_set_feedback set_feedback_idem)
next
  show "chatMessages (submitFeedback_send mid r c app) = chatMessages app"
    by (rule chatMessages_send)
next
  assume "\<not> confirmed failed"
  then show "chatMessages (submitFeedback_settle failed mid r c app) = chatMessages app"
    by (rule settle_unconfirmed)
qed

theorem feedback_rating_is_last_confirmed_witness:
  "(\<exists>m \<in> set (chatMessages answered_page). messageId m = Some ''m1'')
   \<and> confirmed confirming
   \<and> \<not> confirmed refusing
   \<and> \<not> rates ''m1'' (Feedback_settled refusing ''m1'' (Some 9) None)
   \<and> rating_of ''m1''
         (feedback_run
            ([Feedback_sent ''m1'' (Some 3) None, Feedback_sent ''m1'' (Some 7) None,
              Feedback_sent ''m1'' (Some 9) None,
              Feedback_settled confirming ''m1'' (Some 3) None]
             @ Feedback_settled confirming ''m1'' (Some 7) None
               # [Feedback_settled refusing ''m1'' (Some 9) None])
            answered_page) = Some 7
   \<and> rating_of ''m1''
         (feedback_run
            (one_after_another
               ([(confirming, ''m1'', Some 3, None), (refusing, ''m1'', Some 9, None)]
                @ [(confirming, ''m1'', Some 7, None)]))
            answered_page) = Some 7
   \<and> chatMessages (submitFeedback confirming ''m1'' (Some 7) None
                       (submitFeedback confirming ''m1'' (Some 7) None answered_page))
       = chatMessages (submitFeedback confirming ''m1'' (Some 7) None answered_page)
   \<and> chatMessages (submitFeedback_settle refusing ''m1'' (Some 7) None answered_page)
       = chatMessages answered_page"
proof -
  have present: "\<exists>m \<in> set (chatMessages answered_page). messageId m = Some ''m1''"
    by (simp add: answered_page_def)
  have sent: "confirmed confirming"
    by (simp add: confirmed_def confirming_def ok_def)
  have failed: "\<not> confirmed refusing"
    by (simp add: confirmed_def refusing_def ok_def)
  have later: "\<forall>e \<in> set [Feedback_settled refusing ''m1'' (Some 9) None]. \<not> rates ''m1'' e"
    using failed by simp
  from feedback_rating_is_last_confirmed [OF present sent later,
      where v = 7 and c = None and r = "Some 7" and failed = refusing
        and earlier = "[Feedback_sent ''m1'' (Some 3) None, Feedback_sent ''m1'' (Some 7) None,
                        Feedback_sent ''m1'' (Some 9) None,
                        Feedback_settled confirming ''m1'' (Some 3) None]"
        and submissions = "[(confirming, ''m1'', Some 3, None), (refusing, ''m1'', Some 9, None)]"]
  moreover have "\<not> rates ''m1'' (Feedback_settled refusing ''m1'' (Some 9) None)"
    using failed by simp
  ultimately show ?thesis using present sent failed by blast
qed

section \<open>Submitting a query\<close>

declare poll.simps [simp del]

lemma poll_pending:
  assumes "\<forall>k. attempts < k \<and> k \<le> maxAttempts \<longrightarrow> pending (status_reply env k)"
  shows "poll env queryId attempts False app =
           (Inr False,
            app\<lparr>effects := effects app @
                   concat (replicate (maxAttempts - attempts) (poll_round queryId))\<rparr>)"
  using assms
proof (induction "maxAttempts - attempts" arbitrary: attempts app)
  case 0
  then show ?case by (simp add: poll.simps [of env queryId attempts])
next
  case (Suc n)
  from Suc.hyps(2) have less: "attempts < maxAttempts" and n: "n = maxAttempts - Suc attempts"
    by simp_all
  from Suc.prems less have "pending (status_reply env (Suc attempts))"
    by simp
  moreover have "\<forall>k. Suc attempts < k \<and> k \<le> maxAttempts \<longrightarrow> pending (status_reply env k)"
    using Suc.prems by simp
  note Suc.hyps(1) [OF n this]
  moreover from less have "maxAttempts - attempts = Suc (maxAttempts - Suc attempts)"
    by simp
  ultimately show ?case
    by (subst poll.simps)
       (auto simp: less pending_def poll_round_def split: sum.splits)
qed

lemma requestBody_cong:
  "selectedJobId a = selectedJobId b \<Longrightarrow> selectedFolderPaths a = selectedFolderPaths b \<Longrightarrow>
   folderDefaultJobIds a = folderDefaultJobIds b \<Longrightarrow> chatSessionId a = chatSessionId b \<Longrightarrow>
   useAgent a = useAgent b \<Longrightarrow> agentType a = agentType b \<Longrightarrow>
   requestBody a q = requestBody b q"
  by (simp add: requestBody_def Let_def)

lemma msg_nonempty: "msg_error_prefix @ m \<noteq> []"
  by (simp add: msg_error_prefix_def)

lemma submitQuery_begin_valid:
  assumes "trim (queryInput_value app) \<noteq> []" and "selectedFolderPaths app \<noteq> []"
  shows "submitQuery_begin env app =
           (True,
            app\<lparr>submitQueryBtn_disabled := True, queryInput_disabled := True,
                 loadingUI := Some msg_generating,
                 chatMessages := chatMessages app @
                   [\<lparr>role = ''user'', content = trim (queryInput_value app), sources = None,
                     timestamp = locale_time env (length (chatMessages app)),
                     messageId = None, rating = None, comment = None\<rparr>],
                 queryInput_value := [],
                 effects := effects app @
                   [Via_apiRequest (Start_query (requestBody app (trim (queryInput_value app))))]\<rparr>)"
  using assms
  by (simp add: submitQuery_begin_def Let_def showLoadingUI_def addChatMessage_def truthy_def
        requestBody_def)

lemma effects_addChatMessage [simp]: "effects (addChatMessage env r c s m app) = effects app"
  by (simp add: addChatMessage_def Let_def)

lemma effects_showMessage [simp]: "effects (showMessage m t app) = effects app"
  by (simp add: showMessage_def)

lemma effects_updatePdfList [simp]: "effects (updatePdfList s app) = effects app"
  by (simp add: updatePdfList_def Let_def)

lemma effects_hideLoadingUI [simp]: "effects (hideLoadingUI app) = effects app"
  by (simp add: hideLoadingUI_def)

lemma poll_effects_prefix:
  "prefix (effects app) (effects (snd (poll env queryId attempts completed app)))"
proof (induction "maxAttempts - attempts" arbitrary: attempts completed app)
  case 0
  then show ?case by (simp add: poll.simps [of env queryId attempts])
next
  case (Suc n)
  then have n: "n = maxAttempts - Suc attempts" by simp
  let ?app1 = "app\<lparr>effects := effects app @ poll_round queryId\<rparr>"
  have step: "prefix (effects app) (effects (snd (poll env queryId (Suc attempts) c a)))"
    if "effects a = effects ?app1" for c a
  proof -
    have "prefix (effects a) (effects (snd (poll env queryId (Suc attempts) c a)))"
      by (rule Suc.hyps(1) [OF n])
    with that show ?thesis by (auto simp: prefix_def)
  qed
  show ?case
    by (subst poll.simps)
       (auto simp: Let_def poll_round_def intro!: step split: sum.splits)
qed

lemma submitQuery_sends_start:
  assumes "trim (queryInput_value app) \<noteq> []" and "selectedFolderPaths app \<noteq> []"
  shows "\<exists>rest. effects (submitQuery env app) =
           effects app
           @ Via_apiRequest (Start_query (requestBody app (trim (queryInput_value app)))) # rest"
proof -
  let ?begun = "snd (submitQuery_begin env app)"
  have begun: "effects ?begun = effects app
                 @ [Via_apiRequest (Start_query (requestBody app (trim (queryInput_value app))))]"
    by (simp add: submitQuery_begin_valid [OF assms])
  have polled: "prefix (effects a) (effects a')" if "poll env q 0 False a = (r, a')" for a q r a'
    using poll_effects_prefix [of a env q 0 False] that by simp
  have "prefix (effects a) (effects (submitQuery_await env a))" for a
    by (auto simp: submitQuery_await_def Let_def dest: polled
             split: sum.splits prod.splits if_splits)
  then have "prefix (effects ?begun) (effects (submitQuery_await env ?begun))" .
  then obtain rest where "effects (submitQuery_await env ?begun) = effects ?begun @ rest"
    by (auto simp: prefix_def)
  then show ?thesis
    unfolding begun by (simp add: submitQuery_def submitQuery_begin_valid [OF assms])
qed

text \<open>
  Claim C1.  When the question and the folder selection are valid, the start request
  succeeds and every status request is answered with a status other than \<^verbatim>\<open>completed\<close> and
  \<^verbatim>\<open>failed\<close>, \<^verbatim>\<open>submitQuery\<close> sends the start request and then exactly 60 status requests,
  each after a pause of 3000 ms, and ends: the status line shows the error prefix followed by
  the fixed time-out text, which differs from the fixed texts of the other failures, the
  loading overlay is gone, button and input are enabled again and only the user's message was
  added.  The function is total, so the loop always ends.
\<close>

theorem polling_is_bounded:
  assumes question: "trim (queryInput_value app) \<noteq> []"
      and folders: "selectedFolderPaths app \<noteq> []"
      and started: "start_reply env = Inr startResponse" "ok startResponse"
                   "json startResponse = Inr startData"
      and never_done: "\<forall>k. 1 \<le> k \<and> k \<le> 60 \<longrightarrow> pending (status_reply env k)"
  shows "effects (submitQuery env app) =
           effects app
           @ [Via_apiRequest (Start_query (requestBody app (trim (queryInput_value app))))]
           @ concat (replicate 60 [Sleep 3000, Via_apiRequest (Query_status (query_id startData))])
         \<and> status_polls (effects (submitQuery env app)) = status_polls (effects app) + 60
         \<and> queryStatus (submitQuery env app) = Some (msg_error_prefix @ msg_timeout, ''error'')
         \<and> msg_timeout \<notin> {msg_start_failed, msg_status_failed, msg_query_failed}
         \<and> loadingUI (submitQuery env app) = None
         \<and> \<not> submitQueryBtn_disabled (submitQuery env app)
         \<and> \<not> queryInput_disabled (submitQuery env app)
         \<and> length (chatMessages (submitQuery env app)) = Suc (length (chatMessages app))"
proof -
  have all: "\<forall>k. 0 < k \<and> k \<le> maxAttempts \<longrightarrow> pending (status_reply env k)"
    using never_done by (simp add: maxAttempts_def)
  have polls: "status_polls (xs @ concat (replicate n (poll_round q))) = status_polls xs + n" for xs n q
    by (induction n) (simp_all add: status_polls_def poll_round_def)
  have distinct_msgs: "msg_timeout \<notin> {msg_start_failed, msg_status_failed, msg_query_failed}"
    by (simp add: msg_timeout_def msg_start_failed_def msg_status_failed_def msg_query_failed_def)
  have eff: "effects (submitQuery env app) =
           effects app
           @ [Via_apiRequest (Start_query (requestBody app (trim (queryInput_value app))))]
           @ concat (replicate 60 (poll_round (query_id startData)))"
    by (simp add: submitQuery_def submitQuery_begin_valid [OF question folders]
          submitQuery_await_def started poll_pending [OF all] showMessage_def hideLoadingUI_def
          msg_error_prefix_def maxAttempts_def)
  have rest: "queryStatus (submitQuery env app) = Some (msg_error_prefix @ msg_timeout, ''error'')
         \<and> loadingUI (submitQuery env app) = None
         \<and> \<not> submitQueryBtn_disabled (submitQuery env app)
         \<and> \<not> queryInput_disabled (submitQuery env app)
         \<and> length (chatMessages (submitQuery env app)) = Suc (length (chatMessages app))"
    by (simp add: submitQuery_def submitQuery_begin_valid [OF question folders]
          submitQuery_await_def started poll_pending [OF all] showMessage_def hideLoadingUI_def
          msg_error_prefix_def)
  let ?start = "Via_apiRequest (Start_query (requestBody app (trim (queryInput_value app))))"
  have "status_polls (effects (submitQuery env app)) =
          status_polls ((effects app @ [?start])
                        @ concat (replicate 60 (poll_round (query_id startData))))"
    by (simp add: eff)
  also have "\<dots> = status_polls (effects app @ [?start]) + 60"
    by (rule polls)
  also have "status_polls (effects app @ [?start]) = status_polls (effects app)"
    by (simp add: status_polls_def)
  finally have "status_polls (effects (submitQuery env app)) = status_polls (effects app) + 60" .
  with eff rest distinct_msgs show ?thesis
    by (simp add: poll_round_def)
qed


theorem polling_is_bounded_witness:
  "trim (queryInput_value asking_page) \<noteq> []
   \<and> selectedFolderPaths asking_page \<noteq> []
   \<and> start_reply waiting_env =
         Inr (Response 200 (Inr \<lparr>query_id = Some ''q-1'', start_error = None\<rparr>))
   \<and> (\<forall>k. pending (status_reply waiting_env k))
   \<and> status_polls (effects (submitQuery waiting_env asking_page)) = 60
   \<and> queryStatus (submitQuery waiting_env asking_page)
       = Some (msg_error_prefix @ msg_timeout, ''error'')"
proof -
  let ?response = "Response 200 (Inr \<lparr>query_id = Some ''q-1'', start_error = None\<rparr>)"
  have question: "trim (queryInput_value asking_page) \<noteq> []"
    by code_simp
  have folders: "selectedFolderPaths asking_page \<noteq> []"
    by (simp add: asking_page_def)
  have started: "start_reply waiting_env = Inr ?response" "ok ?response"
    "json ?response = Inr \<lparr>query_id = Some ''q-1'', start_error = None\<rparr>"
    by (simp_all add: waiting_env_def ok_def)
  have waiting: "\<forall>k. pending (status_reply waiting_env k)"
    by (simp add: waiting_env_def pending_def ok_def)
  then have never_done: "\<forall>k. 1 \<le> k \<and> k \<le> 60 \<longrightarrow> pending (status_reply waiting_env k)"
    by simp
  have none_before: "status_polls (effects asking_page) = 0"
    by (simp add: asking_page_def answered_page_def status_polls_def)
  note bounded = polling_is_bounded [OF question folders started never_done]
  from bounded have "status_polls (effects (submitQuery waiting_env asking_page))
                       = status_polls (effects asking_page) + 60"
    by blast
  with none_before have polls: "status_polls (effects (submitQuery waiting_env asking_page)) = 60"
    by simp
  from bounded have shown: "queryStatus (submitQuery waiting_env asking_page)
                              = Some (msg_error_prefix @ msg_timeout, ''error'')"
    by blast
  from question folders started(1) waiting polls shown show ?thesis by blast
qed

text \<open>
  Claim C4.  When an explicit job id is set and folders are selected, the start request
  that \<^verbatim>\<open>submitQuery\<close> sends scopes the search by the pair of fields \<^verbatim>\<open>jobId\<close> and
  \<^verbatim>\<open>selected_job_id\<close>, both the explicit job id, and carries neither the selected folder
  paths nor their default job ids: the body is the same whatever folders are selected and
  whatever defaults are known.
\<close>

theorem explicit_job_decides_the_filter:
  assumes explicit: "selectedJobId app = Some job" "job \<noteq> []"
      and folders: "selectedFolderPaths app \<noteq> []"
      and question: "trim (queryInput_value app) \<noteq> []"
  shows "\<exists>rest. effects (submitQuery env app) =
           effects app
           @ Via_apiRequest (Start_query
               \<lparr>query = trim (queryInput_value app), chat_session_id = chatSessionId app,
                use_agent = useAgent app, agent_type = agentType app,
                jobId = Some job, selected_job_id = Some job,
                folder_paths = None, folder_default_job_ids = None\<rparr>) # rest"
proof -
  have "requestBody app (trim (queryInput_value app)) =
          \<lparr>query = trim (queryInput_value app), chat_session_id = chatSessionId app,
           use_agent = useAgent app, agent_type = agentType app,
           jobId = Some job, selected_job_id = Some job,
           folder_paths = None, folder_default_job_ids = None\<rparr>"
    using explicit by (simp add: requestBody_def truthy_def)
  with submitQuery_sends_start [OF question folders, of env] show ?thesis
    by simp
qed

theorem explicit_job_decides_the_filter_witness:
  "selectedJobId explicit_page = Some ''job-42''
   \<and> selectedFolderPaths explicit_page \<noteq> []
   \<and> trim (queryInput_value explicit_page) \<noteq> []
   \<and> (\<exists>rest. effects (submitQuery waiting_env explicit_page) =
         Via_apiRequest (Start_query
           \<lparr>query = ''torque?'',
            chat_session_id = ''verification_0f1e2d3c-4b5a-4978-8695-a4b3c2d1e0f9'',
            use_agent = True, agent_type = ''verification'',
            jobId = Some ''job-42'', selected_job_id = Some ''job-42'',
            folder_paths = None, folder_default_job_ids = None\<rparr>) # rest)"
proof -
  have explicit: "selectedJobId explicit_page = Some ''job-42''" "''job-42'' \<noteq> []"
    by (simp_all add: explicit_page_def)
  have folders: "selectedFolderPaths explicit_page \<noteq> []"
    by (simp add: explicit_page_def asking_page_def)
  have trimmed: "trim (queryInput_value explicit_page) = ''torque?''"
    by code_simp
  then have question: "trim (queryInput_value explicit_page) \<noteq> []"
    by simp
  have fields: "chatSessionId explicit_page = ''verification_0f1e2d3c-4b5a-4978-8695-a4b3c2d1e0f9''"
    "useAgent explicit_page" "agentType explicit_page = ''verification''"
    "effects explicit_page = []"
    by (simp_all add: explicit_page_def asking_page_def answered_page_def)
  from explicit_job_decides_the_filter [OF explicit folders question, of waiting_env]
  show ?thesis using explicit(1) folders question by (simp add: trimmed fields)
qed

lemma load_defaults_fields [simp]:
  "selectedJobId (load_defaults env ps app) = selectedJobId app"
  "selectedFolderPaths (load_defaults env ps app) = selectedFolderPaths app"
  "chatSessionId (load_defaults env ps app) = chatSessionId app"
  "useAgent (load_defaults env ps app) = useAgent app"
  "agentType (load_defaults env ps app) = agentType app"
  "queryInput_value (load_defaults env ps app) = queryInput_value app"
  by (induction ps arbitrary: app; simp add: Let_def split: sum.splits)+

lemma known_pairs_Nil: "known_pairs env [] = {}"
  by (simp add: known_pairs_def)

lemma known_pairs_Cons_skip:
  "p = ''__proto__'' \<or> known_default (default_job_reply env p) = None \<Longrightarrow>
   known_pairs env (p # ps) = known_pairs env ps"
  unfolding known_pairs_def by auto

lemma known_pairs_Cons_Some:
  "p \<noteq> ''__proto__'' \<Longrightarrow> known_default (default_job_reply env p) = Some j \<Longrightarrow>
   known_pairs env (p # ps) = insert (p, j) (known_pairs env ps)"
  unfolding known_pairs_def by auto

lemma assign_proto: "assign ''__proto__'' v obj = obj"
  by (simp add: assign_def)

lemma agrees_assign:
  assumes "agrees env obj" and "known_default (default_job_reply env p) = Some j"
      and "p \<noteq> ''__proto__''"
  shows "agrees env (assign p j obj)" and "set (assign p j obj) = insert (p, j) (set obj)"
proof -
  have same: "v = j" if "(p, v) \<in> set obj" for v
    using that assms by (auto simp: agrees_def)
  have unfolded: "assign p j obj = (if p \<in> fst ` set obj then obj else obj @ [(p, j)])"
  proof (cases "p \<in> fst ` set obj")
    case True
    have "(\<lambda>(k', v'). if k' = p then (k', j) else (k', v')) x = x" if "x \<in> set obj" for x
    proof (cases x)
      case (Pair k v)
      with that same show ?thesis by auto
    qed
    then have "map (\<lambda>(k', v'). if k' = p then (k', j) else (k', v')) obj = obj"
      by (rule map_idI)
    with True assms(3) show ?thesis by (simp add: assign_def)
  next
    case False
    with assms(3) show ?thesis by (simp add: assign_def)
  qed
  show "set (assign p j obj) = insert (p, j) (set obj)"
  proof (cases "p \<in> fst ` set obj")
    case True
    then obtain v where "(p, v) \<in> set obj" by auto
    with same have "(p, j) \<in> set obj" by blast
    with True show ?thesis by (auto simp: unfolded)
  next
    case False
    then show ?thesis by (simp add: unfolded)
  qed
  show "agrees env (assign p j obj)"
  proof (cases "p \<in> fst ` set obj")
    case True
    with assms(1) show ?thesis by (simp add: unfolded)
  next
    case False
    with assms(1,2) show ?thesis by (auto simp: unfolded agrees_def)
  qed
qed

lemma load_defaults_step_None:
  "known_default (default_job_reply env p) = None \<Longrightarrow>
   load_defaults env (p # ps) app =
     load_defaults env ps (app\<lparr>effects := effects app @ [Via_apiRequest (Default_job p)]\<rparr>)"
  by (auto simp: known_default_def Let_def truthy_def split: sum.splits if_splits)

lemma load_defaults_step_Some:
  "known_default (default_job_reply env p) = Some j \<Longrightarrow>
   load_defaults env (p # ps) app =
     load_defaults env ps
       (app\<lparr>effects := effects app @ [Via_apiRequest (Default_job p)],
            folderDefaultJobIds := assign p j (folderDefaultJobIds app)\<rparr>)"
  by (auto simp: known_default_def Let_def js_or_def truthy_def
           split: sum.splits if_splits option.splits)

lemma load_defaults_set:
  assumes "agrees env (folderDefaultJobIds app)"
  shows "agrees env (folderDefaultJobIds (load_defaults env ps app))
         \<and> set (folderDefaultJobIds (load_defaults env ps app)) =
             set (folderDefaultJobIds app) \<union> known_pairs env ps"
  using assms
proof (induction ps arbitrary: app)
  case Nil
  then show ?case by (simp add: known_pairs_Nil)
next
  case (Cons p ps)
  show ?case
  proof (cases "known_default (default_job_reply env p)")
    case None
    let ?app1 = "app\<lparr>effects := effects app @ [Via_apiRequest (Default_job p)]\<rparr>"
    from None have skip: "p = ''__proto__'' \<or> known_default (default_job_reply env p) = None"
      by simp
    from Cons.prems have "agrees env (folderDefaultJobIds ?app1)" by simp
    from Cons.IH [OF this] have "agrees env (folderDefaultJobIds (load_defaults env ps ?app1))
         \<and> set (folderDefaultJobIds (load_defaults env ps ?app1)) =
             set (folderDefaultJobIds app) \<union> known_pairs env ps"
      by simp
    then show ?thesis
      by (simp only: load_defaults_step_None [OF None] known_pairs_Cons_skip [OF skip])
  next
    case (Some j)
    let ?app2 = "app\<lparr>effects := effects app @ [Via_apiRequest (Default_job p)],
                     folderDefaultJobIds := assign p j (folderDefaultJobIds app)\<rparr>"
    show ?thesis
    proof (cases "p = ''__proto__''")
      case True
      then have skip: "p = ''__proto__'' \<or> known_default (default_job_reply env p) = None"
        by simp
      from True have same: "folderDefaultJobIds ?app2 = folderDefaultJobIds app"
        by (simp add: assign_proto)
      with Cons.prems have "agrees env (folderDefaultJobIds ?app2)"
        by (simp only:)
      from Cons.IH [OF this]
      have "agrees env (folderDefaultJobIds (load_defaults env ps ?app2))
         \<and> set (folderDefaultJobIds (load_defaults env ps ?app2)) =
             set (folderDefaultJobIds app) \<union> known_pairs env ps"
        by (simp only: same)
      then show ?thesis
        by (simp only: load_defaults_step_Some [OF Some] known_pairs_Cons_skip [OF skip])
    next
      case False
      from agrees_assign [OF Cons.prems Some False]
      have ok: "agrees env (folderDefaultJobIds ?app2)"
        and set: "set (folderDefaultJobIds ?app2) = insert (p, j) (set (folderDefaultJobIds app))"
        by simp_all
      from Cons.IH [OF ok] have "agrees env (folderDefaultJobIds (load_defaults env ps ?app2))
           \<and> set (folderDefaultJobIds (load_defaults env ps ?app2)) =
               insert (p, j) (set (folderDefaultJobIds app)) \<union> known_pairs env ps"
        by (simp only: set)
      then show ?thesis
        by (simp only: load_defaults_step_Some [OF Some] known_pairs_Cons_Some [OF False Some]
              Un_insert_left Un_insert_right)
    qed
  qed
qed

text \<open>
  A query submitted on the state that the lookup of the current selection has just left, as
  after the dialog is applied: with no explicit job id, the filter pairs of the start
  request are exactly the pairs of a selected folder and the default job id that its lookup
  yields, one for each such folder, the folder \<^verbatim>\<open>__proto__\<close> apart.  A folder whose lookup
  throws, is refused or yields no job id contributes no pair, and the lookup goes on.
\<close>

lemma fresh_lookup_sends_known_pairs:
  assumes no_explicit: "\<not> truthy (selectedJobId app)"
      and folders: "selectedFolderPaths app \<noteq> []"
      and question: "trim (queryInput_value app) \<noteq> []"
  shows "\<exists>body rest.
           effects (submitQuery env' (loadDefaultJobIdsForFolders env app)) =
             effects (loadDefaultJobIdsForFolders env app) @ Via_apiRequest (Start_query body) # rest
           \<and> set (submitted_pairs body) =
               {(p, j). p \<in> set (selectedFolderPaths app) \<and> p \<noteq> ''__proto__''
                        \<and> known_default (default_job_reply env p) = Some j}
           \<and> distinct (map fst (submitted_pairs body))"
proof -
  let ?loaded = "loadDefaultJobIdsForFolders env app"
  let ?body = "requestBody ?loaded (trim (queryInput_value ?loaded))"
  have fields: "selectedFolderPaths ?loaded = selectedFolderPaths app"
    "queryInput_value ?loaded = queryInput_value app" "selectedJobId ?loaded = selectedJobId app"
    by (simp_all add: loadDefaultJobIdsForFolders_def)
  have pairs: "submitted_pairs ?body = folderDefaultJobIds ?loaded"
    using no_explicit by (simp add: submitted_pairs_def requestBody_def fields Let_def)
  obtain rest where sent: "effects (submitQuery env' ?loaded) =
      effects ?loaded @ Via_apiRequest (Start_query ?body) # rest"
    using submitQuery_sends_start [of ?loaded env'] question folders by (auto simp: fields)
  have "agrees env (folderDefaultJobIds (app\<lparr>folderDefaultJobIds := []\<rparr>))"
    by (simp add: agrees_def)
  from load_defaults_set [OF this, of "selectedFolderPaths app"]
  have chosen: "distinct (map fst (folderDefaultJobIds ?loaded))
        \<and> set (folderDefaultJobIds ?loaded) =
            {(p, j). p \<in> set (selectedFolderPaths app) \<and> p \<noteq> ''__proto__''
                     \<and> known_default (default_job_reply env p) = Some j}"
    by (simp add: loadDefaultJobIdsForFolders_def agrees_def known_pairs_def)
  from sent chosen
  have "effects (submitQuery env' ?loaded) =
             effects ?loaded @ Via_apiRequest (Start_query ?body) # rest
           \<and> set (submitted_pairs ?body) =
               {(p, j). p \<in> set (selectedFolderPaths app) \<and> p \<noteq> ''__proto__''
                        \<and> known_default (default_job_reply env p) = Some j}
           \<and> distinct (map fst (submitted_pairs ?body))"
    unfolding pairs by (intro conjI) (rule sent, simp_all)
  then show ?thesis by (intro exI)
qed

text \<open>
  A folder named \<^verbatim>\<open>__proto__\<close> gets no pair although its lookup yields a default job id: the
  assignment to the object stores nothing.
\<close>

lemma proto_folder_gets_no_pair:
  "known_default (default_job_reply stocked_env ''__proto__'') = Some ''job-9''
   \<and> folderDefaultJobIds (loadDefaultJobIdsForFolders stocked_env proto_page) = []"
  by (simp add: known_default_def stocked_env_def waiting_env_def ok_def truthy_def
        loadDefaultJobIdsForFolders_def proto_page_def answered_page_def Let_def js_or_def
        assign_def)

text \<open>
  Claim C8.  The pairs that a start request carries are those of the last lookup, which is
  made for the selection of that moment when the dialog is applied, not those of the
  selection at the time of the request.  A check box of the dialog changes
  \<^verbatim>\<open>selectedFolderPaths\<close> at once, and cancelling the dialog restores nothing and looks
  nothing up.  On a page where the dialog was applied with the folder \<^verbatim>\<open>manuals\<close>, the dialog
  is opened again, \<^verbatim>\<open>manuals\<close> is unticked, \<^verbatim>\<open>drafts\<close> is ticked and the dialog is
  cancelled.  The request that \<^verbatim>\<open>submitQuery\<close> then sends names the folder \<^verbatim>\<open>drafts\<close> alone
  and carries the pair of \<^verbatim>\<open>manuals\<close>, which is not selected, and no pair for \<^verbatim>\<open>drafts\<close>,
  whose lookup would yield the default job id \<^verbatim>\<open>job-9\<close> and was never made.
\<close>

theorem cancelled_selection_sends_stale_pairs:
  "selectedFolderPaths stale_page = [''drafts'']
   \<and> \<not> truthy (selectedJobId stale_page)
   \<and> known_default (default_job_reply stocked_env ''drafts'') = Some ''job-9''
   \<and> Via_apiRequest (Default_job ''drafts'') \<notin> set (effects stale_page)
   \<and> take 1 (drop (length (effects stale_page)) (effects (submitQuery stocked_env stale_page))) =
       [Via_apiRequest (Start_query
          \<lparr>query = ''torque?'',
           chat_session_id = ''verification_0f1e2d3c-4b5a-4978-8695-a4b3c2d1e0f9'',
           use_agent = True, agent_type = ''verification'',
           jobId = None, selected_job_id = None,
           folder_paths = Some [''drafts''],
           folder_default_job_ids = Some [(''manuals'', ''job-7'')]\<rparr>)]"
proof -
  have selection: "selectedFolderPaths stale_page = [''drafts'']"
    by code_simp
  have no_explicit: "\<not> truthy (selectedJobId stale_page)"
    by code_simp
  have known: "known_default (default_job_reply stocked_env ''drafts'') = Some ''job-9''"
    by (simp add: known_default_def stocked_env_def waiting_env_def ok_def truthy_def)
  have before: "effects stale_page = [Via_apiRequest (Default_job ''manuals'')]"
    by code_simp
  have question: "trim (queryInput_value stale_page) = ''torque?''"
    by code_simp
  have body: "requestBody stale_page ''torque?'' =
      \<lparr>query = ''torque?'',
       chat_session_id = ''verification_0f1e2d3c-4b5a-4978-8695-a4b3c2d1e0f9'',
       use_agent = True, agent_type = ''verification'',
       jobId = None, selected_job_id = None,
       folder_paths = Some [''drafts''],
       folder_default_job_ids = Some [(''manuals'', ''job-7'')]\<rparr>"
    by code_simp
  from submitQuery_sends_start [of stale_page stocked_env]
  obtain rest where "effects (submitQuery stocked_env stale_page) =
      effects stale_page
      @ Via_apiRequest (Start_query (requestBody stale_page (trim (queryInput_value stale_page))))
        # rest"
    by (auto simp: question selection)
  then have "take 1 (drop (length (effects stale_page))
                       (effects (submitQuery stocked_env stale_page))) =
      [Via_apiRequest (Start_query (requestBody stale_page ''torque?''))]"
    by (simp add: question)
  moreover have "Via_apiRequest (Default_job ''drafts'') \<notin> set (effects stale_page)"
    by (simp add: before)
  ultimately show ?thesis
    using selection no_explicit known by (simp only: body simp_thms)
qed

section \<open>Sessions, history and events\<close>

lemma hex_digit_in_range: "hex_digit (n mod 16) \<in> set ''0123456789abcdef''"
  unfolding hex_digit_def by (rule nth_mem) simp

lemma generateUUID_starts_with_hex_digit:
  "\<exists>rest. generateUUID rnd = hex_digit (rnd 0 mod 16) # rest"
  by (simp add: generateUUID_def Let_def)

lemma reset_id_has_no_prefix:
  "\<not> prefix ''verification_'' (chatSessionId (resetChatSession env app))"
proof -
  obtain rest where "generateUUID (random16 env) = hex_digit (random16 env 0 mod 16) # rest"
    using generateUUID_starts_with_hex_digit by blast
  moreover have "hex_digit (random16 env 0 mod 16) \<noteq> CHR ''v''"
    using hex_digit_in_range [of "random16 env 0"] by auto
  ultimately show ?thesis
    by (simp add: resetChatSession_def Let_def showMessage_def)
qed

lemma stored_session_id_survives_every_load:
  assumes "truthy (verificationPlanSessionId st)"
  shows "Some (chatSessionId (new_KnowledgeQueryApp env st)) = verificationPlanSessionId st"
proof -
  have kept: "chatSessionId (loadSearchTargetFromStorage env a) = chatSessionId a" for a
    by (simp add: loadSearchTargetFromStorage_def loadDefaultJobIdsForFolders_def Let_def
             split: option.splits)
  have detected: "verificationPlanSessionId (snd (detectHardRefresh env st))
                    = verificationPlanSessionId st"
    by (simp add: detectHardRefresh_def Let_def split: option.splits)
  from assms obtain sid where sid: "verificationPlanSessionId st = Some sid" "sid \<noteq> []"
    by (auto simp: truthy_def split: option.splits)
  obtain hard st' where loaded: "detectHardRefresh env st = (hard, st')"
    by (cases "detectHardRefresh env st")
  with detected sid have "verificationPlanSessionId st' = Some sid"
    by simp
  then show ?thesis
    by (simp add: new_KnowledgeQueryApp_def loaded kept initializeChatSession_def sid
          truthy_def js_or_def)
qed

text \<open>
  Claim C5.  The first half holds on every load: a session id held in the tab's storage is
  kept (lemma \<open>stored_session_id_survives_every_load\<close>).  The second half fails.  The tab
  holds a session id and no folder selection; the page is loaded again four seconds after the
  previous load, as a reload.  The load is detected as a hard refresh and no selection is
  resumed, yet the session id is the old one.
\<close>

theorem late_reload_keeps_session_id:
  "time_now waiting_env - 1000 \<ge> 100
   \<and> lastPageLoadTime kept_storage = Some 1000
   \<and> isHardRefresh (new_KnowledgeQueryApp waiting_env kept_storage)
   \<and> selectedFolderPaths (new_KnowledgeQueryApp waiting_env kept_storage) = []
   \<and> verificationPlanSessionId kept_storage
       = Some ''verification_0f1e2d3c-4b5a-4978-8695-a4b3c2d1e0f9''
   \<and> chatSessionId (new_KnowledgeQueryApp waiting_env kept_storage)
       = ''verification_0f1e2d3c-4b5a-4978-8695-a4b3c2d1e0f9''"
  by code_simp

text \<open>
  Claim C6.  The id generated on first load carries the prefix \<^verbatim>\<open>verification_\<close>; the id
  generated by \<^verbatim>\<open>resetChatSession\<close> does not (it never does: lemma
  \<open>reset_id_has_no_prefix\<close>), and it is stored under the key \<^verbatim>\<open>chatSessionId\<close> while the key
  that the next load reads keeps the old id.
\<close>

theorem reset_session_id_lacks_mode_prefix:
  "chatSessionId (resetChatSession waiting_env answered_page)
     = ''3a18f6d4-b290-47e5-83a1-8f6d4b2907e5''
   \<and> \<not> prefix ''verification_'' (chatSessionId (resetChatSession waiting_env answered_page))
   \<and> stored_chatSessionId (storage (resetChatSession waiting_env answered_page))
       = Some ''3a18f6d4-b290-47e5-83a1-8f6d4b2907e5''
   \<and> verificationPlanSessionId (storage (resetChatSession waiting_env answered_page))
       = Some ''verification_0f1e2d3c-4b5a-4978-8695-a4b3c2d1e0f9''
   \<and> prefix ''verification_''
         (chatSessionId (initializeChatSession waiting_env
            (answered_page\<lparr>storage := (storage answered_page)\<lparr>verificationPlanSessionId := None\<rparr>\<rparr>)))"
  by code_simp

lemma direct_fetches_append [simp]:
  "direct_fetches (xs @ ys) = direct_fetches xs @ direct_fetches ys"
  by (simp add: direct_fetches_def)

lemma direct_fetches_simps [simp]:
  "direct_fetches [] = []"
  "direct_fetches (Via_apiRequest r # es) = direct_fetches es"
  "direct_fetches (Sleep n # es) = direct_fetches es"
  by (simp_all add: direct_fetches_def)

lemma poll_is_indirect:
  "direct_fetches (effects (snd (poll env queryId attempts completed app)))
     = direct_fetches (effects app)"
proof (induction "maxAttempts - attempts" arbitrary: attempts completed app)
  case 0
  then show ?case by (simp add: poll.simps [of env queryId attempts])
next
  case (Suc n)
  then have n: "n = maxAttempts - Suc attempts" by simp
  have step: "direct_fetches (effects (snd (poll env queryId (Suc attempts) c a)))
                = direct_fetches (effects app)"
    if "effects a = effects app @ poll_round queryId" for c a
    using Suc.hyps(1) [OF n, of c a] that by (simp add: poll_round_def)
  show ?case
    by (subst poll.simps)
       (auto simp: Let_def poll_round_def intro!: step split: sum.splits)
qed

lemma load_defaults_is_indirect:
  "direct_fetches (effects (load_defaults env ps app)) = direct_fetches (effects app)"
  by (induction ps arbitrary: app) (simp_all add: Let_def split: sum.splits)

lemma requests_go_through_apiRequest:
  "direct_fetches (effects (submitQuery env app)) = direct_fetches (effects app)"
  "direct_fetches (effects (loadDefaultJobIdsForFolders env app)) = direct_fetches (effects app)"
  "direct_fetches (effects (submitFeedback reply mid r c app)) = direct_fetches (effects app)"
proof -
  have awaited: "direct_fetches (effects (submitQuery_await env a)) = direct_fetches (effects a)" for a
  proof -
    have "direct_fetches (effects a') = direct_fetches (effects a)"
      if "poll env q 0 False a = (r, a')" for q r a'
      using poll_is_indirect [of env q 0 False a] that by simp
    then show ?thesis
      by (auto simp: submitQuery_await_def Let_def split: sum.splits prod.splits if_splits)
  qed
  have begun: "direct_fetches (effects (snd (submitQuery_begin env app))) = direct_fetches (effects app)"
    by (simp add: submitQuery_begin_def Let_def showLoadingUI_def)
  show "direct_fetches (effects (submitQuery env app)) = direct_fetches (effects app)"
  proof (cases "submitQuery_begin env app")
    case (Pair started a)
    with begun awaited [of a] show ?thesis
      by (simp add: submitQuery_def)
  qed
  show "direct_fetches (effects (loadDefaultJobIdsForFolders env app)) = direct_fetches (effects app)"
    by (simp add: loadDefaultJobIdsForFolders_def load_defaults_is_indirect)
  show "direct_fetches (effects (submitFeedback reply mid r c app)) = direct_fetches (effects app)"
    by (simp add: submitFeedback_def submitFeedback_send_def submitFeedback_settle_def Let_def
          split: sum.splits option.splits)
qed

text \<open>
  Claim C7.  \<^verbatim>\<open>loadChatHistory\<close>, called with a job id selected, sends its request with
  \<^verbatim>\<open>fetch\<close> directly: the only header is the content type, no bearer credential is attached
  and no request goes through \<^verbatim>\<open>apiRequest\<close>.  The other operations send every request
  through \<^verbatim>\<open>apiRequest\<close> (lemma \<open>requests_go_through_apiRequest\<close>).
\<close>

theorem history_request_bypasses_apiRequest:
  "selectedJobId explicit_page = Some ''job-42''
   \<and> effects (loadChatHistory waiting_env explicit_page)
       = [Direct_fetch (History_of_job ''job-42'') [(''Content-Type'', ''application/json'')]]"
  by code_simp

text \<open>
  Claim C3.  After a question is submitted, one query is in flight and both the button and
  the input are disabled.  Applying the search-target dialog, unchanged, enables the input
  while that query is still in flight; a second question sent with the Enter key then starts
  a second query of the same session, since \<^verbatim>\<open>submitQuery\<close> itself has no check.
\<close>

theorem second_query_starts_while_first_in_flight:
  "snd (ui_run waiting_env (answered_page, 0) (take 2 two_submissions)) = 1
   \<and> submitQueryBtn_disabled (fst (ui_run waiting_env (answered_page, 0) (take 2 two_submissions)))
   \<and> queryInput_disabled (fst (ui_run waiting_env (answered_page, 0) (take 2 two_submissions)))
   \<and> snd (ui_run waiting_env (answered_page, 0) (take 3 two_submissions)) = 1
   \<and> \<not> queryInput_disabled (fst (ui_run waiting_env (answered_page, 0) (take 3 two_submissions)))
   \<and> snd (ui_run waiting_env (answered_page, 0) two_submissions) = 2
   \<and> started_sessions (effects (fst (ui_run waiting_env (answered_page, 0) two_submissions)))
       = [''verification_0f1e2d3c-4b5a-4978-8695-a4b3c2d1e0f9'',
          ''verification_0f1e2d3c-4b5a-4978-8695-a4b3c2d1e0f9'']"
  by code_simp

section \<open>The authenticated request client\<close>

lemma fetches_append [simp]: "fetches (xs @ ys) = fetches xs + fetches ys"
  by (simp add: fetches_def)

lemma fetches_simps [simp]:
  "fetches [] = 0" "fetches (c # cs) = (if is_fetch c then 1 else 0) + fetches cs"
  by (simp_all add: fetches_def)

lemma handler_refreshes_append [simp]:
  "handler_refreshes (xs @ ys) = handler_refreshes xs @ handler_refreshes ys"
  by (induction xs rule: handler_refreshes.induct) simp_all

lemma quiet_simps [simp]:
  "quiet []" "quiet [InitiateAuth]" "quiet [Refresh_by_getAccessToken b]"
  "quiet (xs @ ys) = (quiet xs \<and> quiet ys)"
  by (auto simp: quiet_def)

lemma extends_refl [simp]: "extends w w"
  by (simp add: extends_def)

lemma extends_trans: "extends a b \<Longrightarrow> extends b c \<Longrightarrow> extends a c"
  by (auto simp: extends_def)

lemma extends_isAuthenticated: "extends w (snd (isAuthenticated w))"
  by (simp add: isAuthenticated_def extends_def Let_def split: option.splits)

lemma extends_refreshAccessToken: "extends w (snd (refreshAccessToken w))"
  by (simp add: refreshAccessToken_def extends_def signOut_def Let_def
           split: cognito_reply.splits)

lemma extends_log:
  "extends w w' \<Longrightarrow> extends w (w'\<lparr>calls := calls w' @ [Refresh_by_getAccessToken b]\<rparr>)"
  by (auto simp: extends_def)

lemma extends_getAccessToken: "extends w (snd (getAccessToken w))"
proof -
  obtain a w1 where a: "isAuthenticated w = (a, w1)" by (cases "isAuthenticated w")
  obtain r w2 where r: "refreshAccessToken w1 = (r, w2)" by (cases "refreshAccessToken w1")
  from a have 1: "extends w w1" using extends_isAuthenticated [of w] by simp
  from r have 2: "extends w1 w2" using extends_refreshAccessToken [of w1] by simp
  from 1 2 have "extends w (w2\<lparr>calls := calls w2 @ [Refresh_by_getAccessToken b]\<rparr>)" for b
    by (blast intro: extends_trans extends_log)
  with 1 show ?thesis by (simp add: getAccessToken_def a r Let_def)
qed

lemma new_calls_append: "calls w' = calls w @ extra \<Longrightarrow> new_calls w w' = extra"
  by (simp add: new_calls_def)

lemma no_manager_no_retry:
  assumes "fetch w (fetch_calls w) = Inr response" and "status response = 401"
      and "\<not> authManager w"
  shows "fst (apiRequest url opt_headers body w) = Inl (Error msg_session_expired)
         \<and> handler_refreshes (new_calls w (snd (apiRequest url opt_headers body w))) = []
         \<and> fetches (new_calls w (snd (apiRequest url opt_headers body w))) = 1"
  using assms
  by (simp add: apiRequest_def send_with_retry_def do_fetch_def redirect_to_login_def
        new_calls_def Let_def)

text \<open>
  Claim C2, as amended.  On a page with a credential manager, when a request is sent and the
  first answer of the transport is a 401 response, the 401 branch of \<^verbatim>\<open>apiRequest\<close> asks for
  exactly one refresh; the request is sent again exactly once when that refresh succeeded and
  not at all when it failed, so there are never more than two transport calls; when the
  refresh failed, or the second answer is a response that is not \<^verbatim>\<open>ok\<close>, the call throws the
  session-expired error and sends the browser to the sign-in page; an \<^verbatim>\<open>ok\<close> second answer is
  returned, and an error thrown by the second transport call is passed on.
\<close>

theorem refresh_once_resend_if_refreshed:
  assumes first: "fetch w (fetch_calls w) = Inr response" "status response = 401"
      and manager: "authManager w"
      and sent: "truthy (fst (getAccessToken w))"
  shows "length (handler_refreshes (new_calls w (snd (apiRequest url opt_headers body w)))) = 1
         \<and> fetches (new_calls w (snd (apiRequest url opt_headers body w))) =
             (if handler_refreshes (new_calls w (snd (apiRequest url opt_headers body w))) = [True]
              then 2 else 1)
         \<and> (handler_refreshes (new_calls w (snd (apiRequest url opt_headers body w))) = [False] \<longrightarrow>
              fst (apiRequest url opt_headers body w) = Inl (Error msg_session_expired)
              \<and> location_href (snd (apiRequest url opt_headers body w)) = Some ''index.html'')
         \<and> (handler_refreshes (new_calls w (snd (apiRequest url opt_headers body w))) = [True] \<longrightarrow>
              (case fetch w (Suc (fetch_calls w)) of
                 Inl e \<Rightarrow> fst (apiRequest url opt_headers body w) = Inl e
               | Inr retryResponse \<Rightarrow>
                   if ok retryResponse
                   then fst (apiRequest url opt_headers body w) = Inr retryResponse
                   else fst (apiRequest url opt_headers body w) = Inl (Error msg_session_expired)
                        \<and> location_href (snd (apiRequest url opt_headers body w))
                            = Some ''index.html''))"
proof -
  obtain tok w1 where g1: "getAccessToken w = (tok, w1)"
    by (cases "getAccessToken w")
  with extends_getAccessToken [of w] sent have w1: "extends w w1" and tok: "truthy tok"
    by simp_all
  then obtain e1 where e1: "calls w1 = calls w @ e1" "quiet e1"
    by (auto simp: extends_def)
  define hs0 where "hs0 = assign ''Authorization'' (bearer tok)
                            (case opt_headers of None \<Rightarrow> [] | Some h \<Rightarrow> h)"
  define hs where "hs = (if \<not> truthy (map_of hs0 ''Content-Type'') \<and> truthy body
                         then assign ''Content-Type'' ''application/json'' hs0 else hs0)"
  have api: "apiRequest url opt_headers body w = send_with_retry url hs w1"
    using manager tok by (simp add: apiRequest_def g1 hs_def hs0_def Let_def)
  define w2 where "w2 = w1\<lparr>fetch_calls := Suc (fetch_calls w1), calls := calls w1 @ [Fetch url hs]\<rparr>"
  have f1: "do_fetch url hs w1 = (Inr response, w2)"
    using w1 first by (simp add: do_fetch_def w2_def extends_def)
  have w2: "fetch w2 = fetch w" "fetch_calls w2 = Suc (fetch_calls w)" "authManager w2"
    "calls w2 = calls w @ e1 @ [Fetch url hs]"
    using w1 manager e1 by (simp_all add: w2_def extends_def)
  obtain rr w3 where r: "refreshAccessToken w2 = (rr, w3)"
    by (cases "refreshAccessToken w2")
  with extends_refreshAccessToken [of w2] have w3: "extends w2 w3"
    by simp
  then obtain e3 where e3: "calls w3 = calls w2 @ e3" "quiet e3"
    by (auto simp: extends_def)
  define w4 where "w4 = w3\<lparr>calls := calls w3 @ [Refresh_by_apiRequest (success rr)]\<rparr>"
  have w4: "fetch w4 = fetch w" "fetch_calls w4 = Suc (fetch_calls w)"
    "calls w4 = calls w @ e1 @ [Fetch url hs] @ e3 @ [Refresh_by_apiRequest (success rr)]"
    using w3 w2 e3 by (simp_all add: w4_def extends_def)
  show ?thesis
  proof (cases "success rr")
    case False
    have res: "send_with_retry url hs w1 = (Inl (Error msg_session_expired), redirect_to_login w4)"
      using False first(2) w2(3)
      by (simp add: send_with_retry_def f1 r w4_def Let_def)
    have "calls (redirect_to_login w4)
            = calls w @ e1 @ [Fetch url hs] @ e3 @ [Refresh_by_apiRequest False]"
      using w4(3) False by (simp add: redirect_to_login_def)
    then have new: "new_calls w (snd (apiRequest url opt_headers body w))
            = e1 @ [Fetch url hs] @ e3 @ [Refresh_by_apiRequest False]"
      unfolding api res by (simp add: new_calls_append)
    have quiet: "fetches e1 = 0" "fetches e3 = 0" "handler_refreshes e1 = []" "handler_refreshes e3 = []"
      using e1(2) e3(2) by (simp_all add: quiet_def)
    show ?thesis
      unfolding new by (simp add: quiet api res redirect_to_login_def)
  next
    case True
    obtain tok2 w5 where g2: "getAccessToken w4 = (tok2, w5)"
      by (cases "getAccessToken w4")
    with extends_getAccessToken [of w4] have w5: "extends w4 w5"
      by simp
    then obtain e5 where e5: "calls w5 = calls w4 @ e5" "quiet e5"
      by (auto simp: extends_def)
    define hs' where "hs' = assign ''Authorization'' (bearer tok2) hs"
    define w6 where "w6 = w5\<lparr>fetch_calls := Suc (fetch_calls w5), calls := calls w5 @ [Fetch url hs']\<rparr>"
    have f2: "do_fetch url hs' w5 = (fetch w (Suc (fetch_calls w)), w6)"
      using w5 w4 by (simp add: do_fetch_def w6_def extends_def)
    have w6: "calls w6 = calls w @ e1 @ [Fetch url hs] @ e3 @ [Refresh_by_apiRequest True]
                           @ e5 @ [Fetch url hs']"
      using e5 w4(3) True by (simp add: w6_def)
    have quiet: "fetches e1 = 0" "fetches e3 = 0" "fetches e5 = 0"
      "handler_refreshes e1 = []" "handler_refreshes e3 = []" "handler_refreshes e5 = []"
      using e1(2) e3(2) e5(2) by (simp_all add: quiet_def)
    have res: "send_with_retry url hs w1 =
        (case fetch w (Suc (fetch_calls w)) of
           Inl e \<Rightarrow> (Inl e, w6)
         | Inr retryResponse \<Rightarrow>
             if ok retryResponse then (Inr retryResponse, w6)
             else (Inl (Error msg_session_expired), redirect_to_login w6))"
    proof -
      have folded: "w3\<lparr>calls := calls w3 @ [Refresh_by_apiRequest True]\<rparr> = w4"
        using True by (simp add: w4_def)
      show ?thesis
        using True first(2) w2(3)
        by (simp add: send_with_retry_def f1 r folded g2 f2 [unfolded hs'_def] Let_def
                 split: sum.splits)
    qed
    have calls_res: "calls (snd (send_with_retry url hs w1)) = calls w6"
      unfolding res by (simp add: redirect_to_login_def split: sum.splits)
    have new: "new_calls w (snd (apiRequest url opt_headers body w))
            = e1 @ [Fetch url hs] @ e3 @ [Refresh_by_apiRequest True] @ e5 @ [Fetch url hs']"
      unfolding api by (rule new_calls_append) (simp add: calls_res w6)
    show ?thesis
      unfolding new
      by (simp add: quiet api res redirect_to_login_def split: sum.splits)
  qed
qed


theorem refresh_once_resend_if_refreshed_witness:
  "fetch renewing_world (fetch_calls renewing_world) = Inr (Response 401 (Inr ()))
   \<and> authManager renewing_world
   \<and> truthy (fst (getAccessToken renewing_world))
   \<and> handler_refreshes
         (new_calls renewing_world (snd (apiRequest ''/history'' None None renewing_world)))
       = [True]
   \<and> fetches (new_calls renewing_world (snd (apiRequest ''/history'' None None renewing_world)))
       = 2
   \<and> fst (apiRequest ''/history'' None None renewing_world) = Inr (Response 200 (Inr ()))"
proof -
  have first: "fetch renewing_world (fetch_calls renewing_world) = Inr (Response 401 (Inr ()))"
    "status (Response 401 (Inr ()) :: unit response) = 401"
    by (simp_all add: renewing_world_def revoked_world_def)
  have manager: "authManager renewing_world"
    by (simp add: renewing_world_def revoked_world_def)
  have sent: "truthy (fst (getAccessToken renewing_world))"
    by code_simp
  have second: "fetch renewing_world (Suc (fetch_calls renewing_world)) = Inr (Response 200 (Inr ()))"
    "ok (Response 200 (Inr ()) :: unit response)"
    by (simp_all add: renewing_world_def revoked_world_def ok_def)
  have refreshed: "handler_refreshes
      (new_calls renewing_world (snd (apiRequest ''/history'' None None renewing_world))) = [True]"
    by code_simp
  note once = refresh_once_resend_if_refreshed [OF first manager sent, of "''/history''" None None]
  from once refreshed
  have "fetches (new_calls renewing_world (snd (apiRequest ''/history'' None None renewing_world))) = 2"
    by simp
  moreover from once refreshed second
  have "fst (apiRequest ''/history'' None None renewing_world) = Inr (Response 200 (Inr ()))"
    by simp
  ultimately show ?thesis using first(1) manager sent refreshed by blast
qed

theorem no_resend_after_failed_refresh:
  "fetch revoked_world (fetch_calls revoked_world) = Inr (Response 401 (Inr ()))
   \<and> handler_refreshes
         (new_calls revoked_world (snd (apiRequest ''/history'' None None revoked_world)))
       = [False]
   \<and> fetches (new_calls revoked_world (snd (apiRequest ''/history'' None None revoked_world)))
       = 1
   \<and> fst (apiRequest ''/history'' None None revoked_world) = Inl (Error msg_session_expired)"
  by code_simp

end
